theory Spec2Isabelle
  imports Main
begin

section \<open>Strings, thrown errors and the libraries the pipeline calls\<close>

text \<open>
  The development embeds \<^verbatim>\<open>getHtmlForWebview\<close> of \<^verbatim>\<open>src/helpers.ts\<close>: the code-block
  handler installed on the Markdown engine, the configuration handed to that engine, to the
  sanitizer and to the emoji rewriter, the resolution of the asset base, and the template of
  the assembled document.

  A string is the sequence of its UTF-8 bytes. Every string operation of the source
  (concatenation, the comparison with \<^verbatim>\<open>'mermaid'\<close>, the test for the empty string, removing a
  final \<^verbatim>\<open>/\<close>) gives the same result on bytes as on JavaScript's code units, because the bytes
  of an ASCII character occur in UTF-8 only as that character. Text of the templates outside
  ASCII (the comments) is written as its bytes.

  A thrown exception is a value \<open>Inl e\<close>, a normal return a value \<open>Inr v\<close>.
\<close>

definition nl :: string where
  \<open>nl = [CHR 0x0A]\<close>

datatype js_error = JsError string

text \<open>\<^verbatim>\<open>try { body } catch (error) { handler }\<close>\<close>

definition try_catch :: \<open>js_error + 'a \<Rightarrow> (js_error \<Rightarrow> js_error + 'a) \<Rightarrow> js_error + 'a\<close> where
  \<open>try_catch body handler = (case body of Inl error \<Rightarrow> handler error | Inr v \<Rightarrow> Inr v)\<close>

text \<open>
  \<^verbatim>\<open>a || d\<close> and \<^verbatim>\<open>a ? .. : ..\<close> on a value of type \<^verbatim>\<open>string | undefined\<close>: \<^verbatim>\<open>undefined\<close> and the
  empty string are the falsy ones.
\<close>

definition truthy :: \<open>string option \<Rightarrow> bool\<close> where
  \<open>truthy v = (case v of None \<Rightarrow> False | Some s \<Rightarrow> s \<noteq> [])\<close>

definition or_else :: \<open>string option \<Rightarrow> string \<Rightarrow> string\<close> where
  \<open>or_else v d = (case v of None \<Rightarrow> d | Some s \<Rightarrow> if s = [] then d else s)\<close>

subsection \<open>The configuration objects of the source\<close>

text \<open>\<^verbatim>\<open>ExtendedMarkedOptions\<close>, with the fields the source sets.\<close>

record marked_options =
  renderer :: \<open>string \<Rightarrow> string option \<Rightarrow> js_error + string\<close>
  highlight :: \<open>string \<Rightarrow> string \<Rightarrow> js_error + string\<close>
  langPrefix :: string
  gfm :: bool
  breaks :: bool
  smartLists :: bool
  smartypants :: bool
  xhtml :: bool

text \<open>
  \<^verbatim>\<open>marked\<close> is one object shared by the whole module. Its state is the configuration it has
  received: the calls \<^verbatim>\<open>marked.use(..)\<close> and \<^verbatim>\<open>marked.setOptions(..)\<close> made on it so far, oldest
  first.
\<close>

datatype marked_extension = markedKatex

datatype marked_call = marked_use marked_extension | marked_setOptions marked_options

type_synonym marked_state = \<open>marked_call list\<close>

text \<open>The second argument of \<^verbatim>\<open>DOMPurify.sanitize\<close> and of \<^verbatim>\<open>twemoji.parse\<close>.\<close>

record sanitize_config =
  USE_PROFILES :: \<open>(string \<times> bool) list\<close>
  ADD_TAGS :: \<open>string list\<close>
  ADD_ATTR :: \<open>string list\<close>

record twemoji_options =
  folder :: string
  ext :: string
  base :: string

subsection \<open>The libraries\<close>

text \<open>
  \<^verbatim>\<open>highlight.js\<close>, \<^verbatim>\<open>marked\<close>, \<^verbatim>\<open>isomorphic-dompurify\<close> and \<^verbatim>\<open>twemoji\<close> are packages the
  module imports; what they compute is not part of the repository. The embedding takes them
  as a parameter \<open>L\<close>: a result below holds for whatever these functions return, unless
  it states a hypothesis about one of them, and each of them may throw. \<open>hljs_getLanguage\<close>
  gives the truth value of the language object the registry returns.
\<close>

record libs =
  hljs_getLanguage :: \<open>string \<Rightarrow> js_error + bool\<close>
  hljs_highlight :: \<open>string \<Rightarrow> string \<Rightarrow> js_error + string\<close>
  marked_parse :: \<open>marked_state \<Rightarrow> string \<Rightarrow> js_error + string\<close>
  DOMPurify_sanitize :: \<open>string \<Rightarrow> sanitize_config \<Rightarrow> js_error + string\<close>
  twemoji_parse :: \<open>string \<Rightarrow> twemoji_options \<Rightarrow> js_error + string\<close>

section \<open>The code-block handler \<^verbatim>\<open>renderer.code\<close>\<close>

text \<open>The three template literals of the handler, cut at their interpolations.\<close>

definition mermaid_container_open :: string where
  \<open>mermaid_container_open = concat
    [nl,
     ''                <div class="mermaid-container">'', nl,
     ''                    <pre class="mermaid">'']\<close>

definition mermaid_container_close :: string where
  \<open>mermaid_container_close = concat
    [''</pre>'', nl,
     ''                </div>'', nl,
     ''            '']\<close>

definition code_block_open :: string where
  \<open>code_block_open = concat
    [nl,
     ''                <div class="code-block">'', nl,
     ''                    <div class="code-header">'', nl,
     ''                        <span class="language">'']\<close>

definition code_block_header :: string where
  \<open>code_block_header = concat
    [''</span>'', nl,
     ''                        <button class="copy-button" onclick="copyToClipboard(this)" title="Copy to clipboard">'', nl,
     ''                            <svg width="16" height="16" viewBox="0 0 24 24" fill="none" stroke="currentColor" stroke-width="2">'', nl,
     ''                                <rect x="9" y="9" width="13" height="13" rx="2" ry="2"></rect>'', nl,
     ''                                <path d="M5 15H4a2 2 0 0 1-2-2V4a2 2 0 0 1 2-2h9a2 2 0 0 1 2 2v1"></path>'', nl,
     ''                            </svg>'', nl,
     ''                        </button>'', nl,
     ''                    </div>'', nl,
     ''                    <pre><code class="hljs language-'']\<close>

definition code_block_class_end :: string where
  \<open>code_block_class_end = ''">''\<close>

definition code_block_close :: string where
  \<open>code_block_close = concat
    [''</code></pre>'', nl,
     ''                </div>'', nl,
     ''            '']\<close>

definition fallback_block_open :: string where
  \<open>fallback_block_open = concat
    [nl,
     ''                <div class="code-block">'', nl,
     ''                    <div class="code-header">'', nl,
     ''                        <span class="language">'']\<close>

definition fallback_block_header :: string where
  \<open>fallback_block_header = concat
    [''</span>'', nl,
     ''                        <button class="copy-button" onclick="copyToClipboard(this)" title="Copy to clipboard">'', nl,
     ''                            <svg width="16" height="16" viewBox="0 0 24 24" fill="none" stroke="currentColor" stroke-width="2">'', nl,
     ''                                <rect x="9" y="9" width="13" height="13" rx="2" ry="2"></rect>'', nl,
     ''                                <path d="M5 15H4a2 2 0 0 1-2-2V4a2 2 0 0 1 2-2h9a2 2 0 0 1 2 2v1"></path>'', nl,
     ''                            </svg>'', nl,
     ''                        </button>'', nl,
     ''                    </div>'', nl,
     ''                    <pre><code>'']\<close>

definition fallback_block_close :: string where
  \<open>fallback_block_close = concat
    [''</code></pre>'', nl,
     ''                </div>'', nl,
     ''            '']\<close>

text \<open>The template of the \<^verbatim>\<open>try\<close> branch, as a function of what it interpolates.\<close>

definition code_block :: \<open>string \<Rightarrow> string \<Rightarrow> string \<Rightarrow> string\<close> where
  \<open>code_block lang validLanguage highlightedCode =
     code_block_open @ lang @ code_block_header @ validLanguage @
     code_block_class_end @ highlightedCode @ code_block_close\<close>

text \<open>
  The body of the \<^verbatim>\<open>try\<close>: look the tag up, highlight, fill the template. Anything thrown by
  the registry or by the highlighter leaves the block here.
\<close>

definition highlighted_block :: \<open>libs \<Rightarrow> string \<Rightarrow> string \<Rightarrow> js_error + string\<close> where
  \<open>highlighted_block L code lang =
     (case hljs_getLanguage L lang of
        Inl error \<Rightarrow> Inl error
      | Inr known \<Rightarrow>
          (let validLanguage = (if known then lang else ''plaintext'') in
           case hljs_highlight L code validLanguage of
             Inl error \<Rightarrow> Inl error
           | Inr highlightedCode \<Rightarrow> Inr (code_block lang validLanguage highlightedCode)))\<close>

text \<open>The \<^verbatim>\<open>catch\<close> branch's template; the source fills it with \<open>lang\<close> and \<open>code\<close>.\<close>

definition fallback_block :: \<open>string \<Rightarrow> string \<Rightarrow> string\<close> where
  \<open>fallback_block lang code =
     fallback_block_open @ lang @ fallback_block_header @ code @ fallback_block_close\<close>

definition renderer_code :: \<open>libs \<Rightarrow> string \<Rightarrow> string option \<Rightarrow> js_error + string\<close> where
  \<open>renderer_code L code language =
     (let lang = or_else language ''plaintext'' in
      if lang = ''mermaid'' then Inr (mermaid_container_open @ code @ mermaid_container_close)
      else try_catch (highlighted_block L code lang) (\<lambda>error. Inr (fallback_block lang code)))\<close>

text \<open>
  The \<^verbatim>\<open>console.error\<close> of the \<^verbatim>\<open>catch\<close> branch writes to the host's console and has no
  part in the returned string; the console is not modelled.
\<close>

section \<open>The options given to the Markdown engine\<close>

definition highlight_option :: \<open>libs \<Rightarrow> string \<Rightarrow> string \<Rightarrow> js_error + string\<close> where
  \<open>highlight_option L code lang =
     (case hljs_getLanguage L lang of
        Inl error \<Rightarrow> Inl error
      | Inr known \<Rightarrow> hljs_highlight L code (if known then lang else ''plaintext''))\<close>

definition markedOptions :: \<open>libs \<Rightarrow> marked_options\<close> where
  \<open>markedOptions L =
     \<lparr>renderer = renderer_code L,
      highlight = highlight_option L,
      langPrefix = ''hljs language-'',
      gfm = True,
      breaks = False,
      smartLists = True,
      smartypants = False,
      xhtml = False\<rparr>\<close>

section \<open>Sanitizer and emoji configuration\<close>

definition sanitize_options :: sanitize_config where
  \<open>sanitize_options =
     \<lparr>USE_PROFILES = [(''html'', True)],
      ADD_TAGS =
        [''math'', ''semantics'', ''mrow'', ''mi'', ''mo'', ''mn'', ''msup'', ''sub'', ''sup'', ''annotation'',
         ''svg'', ''path'', ''rect'', ''g'', ''text'', ''tspan'', ''defs'', ''marker'', ''line'',
         ''polyline'', ''polygon'', ''circle'', ''ellipse'', ''foreignObject''],
      ADD_ATTR =
        [''xmlns'', ''viewBox'', ''fill'', ''stroke'', ''stroke-width'', ''d'', ''x'', ''y'',
         ''width'', ''height'', ''rx'', ''ry'', ''id'', ''class'', ''transform'', ''cx'', ''cy'',
         ''r'', ''x1'', ''y1'', ''x2'', ''y2'', ''points'', ''font-family'', ''font-size'',
         ''text-anchor'', ''dominant-baseline'', ''style'', ''marker-start'', ''marker-end'']\<rparr>\<close>

definition emoji_options :: twemoji_options where
  \<open>emoji_options =
     \<lparr>folder = ''svg'',
      ext = ''.svg'',
      base = ''https://cdnjs.cloudflare.com/ajax/libs/twemoji/14.0.2/''\<rparr>\<close>

section \<open>The asset base\<close>

text \<open>\<^verbatim>\<open>s.replace(/\/$/, '')\<close>: the pattern matches one \<^verbatim>\<open>/\<close> at the very end of \<open>s\<close>.\<close>

definition replace_trailing_slash :: \<open>string \<Rightarrow> string\<close> where
  \<open>replace_trailing_slash s = (if s \<noteq> [] \<and> last s = CHR ''/'' then butlast s else s)\<close>

definition vendor_of :: \<open>string option \<Rightarrow> string option\<close> where
  \<open>vendor_of assetBase =
     (if truthy assetBase then map_option replace_trailing_slash assetBase else None)\<close>

text \<open>\<^verbatim>\<open>vendor ? vendor + path : fallback\<close>, written three times in the template.\<close>

definition asset_url :: \<open>string option \<Rightarrow> string \<Rightarrow> string \<Rightarrow> string\<close> where
  \<open>asset_url vendor path fallback =
     (case vendor of
        None \<Rightarrow> fallback
      | Some v \<Rightarrow> if v = [] then fallback else v @ path)\<close>

definition highlight_css_url :: \<open>string option \<Rightarrow> string\<close> where
  \<open>highlight_css_url vendor =
     asset_url vendor ''/highlight/styles/github-dark.min.css''
       ''https://cdnjs.cloudflare.com/ajax/libs/highlight.js/11.8.0/styles/github-dark.min.css''\<close>

definition katex_css_url :: \<open>string option \<Rightarrow> string\<close> where
  \<open>katex_css_url vendor =
     asset_url vendor ''/katex/katex.min.css''
       ''https://cdn.jsdelivr.net/npm/katex@0.16.9/dist/katex.min. css''\<close>

definition highlight_js_url :: \<open>string option \<Rightarrow> string\<close> where
  \<open>highlight_js_url vendor =
     asset_url vendor ''/highlight/highlight.min.js''
       ''https://cdnjs.cloudflare.com/ajax/libs/highlight.js/11.8.0/highlight.min.js''\<close>

section \<open>The document template\<close>

text \<open>The template literal that \<^verbatim>\<open>getHtmlForWebview\<close> returns, cut at its interpolations.\<close>

definition shell_head :: string where
  \<open>shell_head = concat
    [''<! DOCTYPE html>'', nl,
     ''<html lang="en">'', nl,
     ''<head>'', nl,
     ''    <meta charset="UTF-8">'', nl,
     ''    <meta name="viewport" content="width=device-width, initial-scale=1.0">'', nl,
     ''    <title>Markdown:  Rich Preview</title>'', nl,
     ''    <link rel="stylesheet" href="'']\<close>

definition shell_second_link :: string where
  \<open>shell_second_link = concat
    [''">'', nl,
     ''    <link rel="stylesheet" href="'']\<close>

definition shell_after_links :: string where
  \<open>shell_after_links = concat
    [''">'', nl,
     ''    '', nl,
     ''    <!-- '', [CHR 0xD8, CHR 0xA7, CHR 0xD8, CHR 0xB6, CHR 0xD8, CHR 0xA7, CHR 0xD9, CHR 0x81, CHR 0xD9, CHR 0x87], '' '', [CHR 0xDA, CHR 0xA9, CHR 0xD8, CHR 0xB1, CHR 0xD8, CHR 0xAF, CHR 0xD9, CHR 0x86], '' Mermaid -->'', nl]\<close>

definition mermaid_bootstrap :: string where
  \<open>mermaid_bootstrap = concat
    [''    <script type="module">'', nl,
     ''        import mermaid from 'https://cdn.jsdelivr.net/npm/mermaid@10/dist/mermaid.esm.min.mjs';'', nl,
     ''        '', nl,
     ''        mermaid.initialize({ '', nl,
     ''            startOnLoad: true,'', nl,
     ''            theme: 'default','', nl,
     ''            securityLevel: 'loose','', nl,
     ''            fontFamily: '-apple-system, BlinkMacSystemFont, "Segoe UI", Roboto, sans-serif'', [CHR 0x27], nl,
     ''        });'', nl,
     ''        '', nl,
     ''        // '', [CHR 0xD8, CHR 0xA8, CHR 0xD8, CHR 0xB1, CHR 0xD8, CHR 0xA7, CHR 0xDB, CHR 0x8C], '' PDF export'', [CHR 0xD8, CHR 0x8C], '' '', [CHR 0xD8, CHR 0xB5, CHR 0xD8, CHR 0xA8, CHR 0xD8, CHR 0xB1], '' '', [CHR 0xDA, CHR 0xA9, CHR 0xD9, CHR 0x86, CHR 0xDB, CHR 0x8C, CHR 0xD8, CHR 0xAF], '' '', [CHR 0xD8, CHR 0xAA, CHR 0xD8, CHR 0xA7], '' '', [CHR 0xD9, CHR 0x87, CHR 0xD9, CHR 0x85, CHR 0xD9, CHR 0x87], '' '', [CHR 0xD9, CHR 0x86, CHR 0xD9, CHR 0x85, CHR 0xD9, CHR 0x88, CHR 0xD8, CHR 0xAF, CHR 0xD8, CHR 0xA7, CHR 0xD8, CHR 0xB1, CHR 0xD9, CHR 0x87, CHR 0xD8, CHR 0xA7], '' '', [CHR 0xD8, CHR 0xB1, CHR 0xD9, CHR 0x86, CHR 0xD8, CHR 0xAF, CHR 0xD8, CHR 0xB1], '' '', [CHR 0xD8, CHR 0xB4, CHR 0xD9, CHR 0x88, CHR 0xD9, CHR 0x86, CHR 0xD8, CHR 0xAF], nl,
     ''        window.addEventListener('load', async () => {'', nl,
     ''            try {'', nl,
     ''                await mermaid.run({'', nl,
     ''                    querySelector: '.mermaid'', [CHR 0x27], nl,
     ''                });'', nl,
     ''                // '', [CHR 0xD8, CHR 0xB3, CHR 0xDB, CHR 0x8C, CHR 0xDA, CHR 0xAF, CHR 0xD9, CHR 0x86, CHR 0xD8, CHR 0xA7, CHR 0xD9, CHR 0x84], '' '', [CHR 0xD8, CHR 0xA8, CHR 0xD9, CHR 0x87], '' Puppeteer '', [CHR 0xDA, CHR 0xA9, CHR 0xD9, CHR 0x87], '' '', [CHR 0xD8, CHR 0xB1, CHR 0xD9, CHR 0x86, CHR 0xD8, CHR 0xAF, CHR 0xD8, CHR 0xB1], '' '', [CHR 0xD8, CHR 0xAA, CHR 0xD9, CHR 0x85, CHR 0xD8, CHR 0xA7, CHR 0xD9, CHR 0x85], '' '', [CHR 0xD8, CHR 0xB4, CHR 0xD8, CHR 0xAF, CHR 0xD9, CHR 0x87], nl,
     ''                window.mermaidReady = true;'', nl,
     ''            } catch (error) {'', nl,
     ''                console.error('Mermaid rendering error:', error);'', nl,
     ''                window.mermaidReady = true;'', nl,
     ''            }'', nl,
     ''        });'', nl,
     ''    </script>'', nl]\<close>

definition shell_highlight_script :: string where
  \<open>shell_highlight_script = concat
    [''    '', nl,
     ''    <script src="'']\<close>

definition shell_scripts :: string where
  \<open>shell_scripts = concat
    [''"></script>'', nl,
     ''    <script>'', nl,
     ''        // Initialize highlight.js'', nl,
     ''        document.addEventListener('DOMContentLoaded', () => {'', nl,
     ''            document.querySelectorAll('pre code').forEach((block) => {'', nl,
     ''                if (typeof hljs !== 'undefined' && hljs.highlightElement) {'', nl,
     ''                    hljs. highlightElement(block);'', nl,
     ''                }'', nl,
     ''            });'', nl,
     ''        });'', nl,
     nl,
     ''        // Copy to clipboard function'', nl,
     ''        function copyToClipboard(button) {'', nl,
     ''            const codeBlock = button.closest('.code-block');'', nl,
     ''            const code = codeBlock.querySelector('code').textContent;'', nl,
     ''            navigator.clipboard.writeText(code).then(() => {'', nl,
     ''                const originalText = button.textContent;'', nl,
     ''                button.textContent = 'Copied!';'', nl,
     ''                button.style.backgroundColor = '#4CAF50';'', nl,
     ''                button.style.color = 'white';'', nl,
     ''                setTimeout(() => {'', nl,
     ''                    button.textContent = originalText;'', nl,
     ''                    button.style.backgroundColor = '', [CHR 0x27, CHR 0x27], '';'', nl,
     ''                    button.style.color = '', [CHR 0x27, CHR 0x27], '';'', nl,
     ''                }, 2000);'', nl,
     ''            }).catch(err => {'', nl,
     ''                console.error('Failed to copy:  ', err);'', nl,
     ''            });'', nl,
     ''        }'', nl,
     ''    </script>'', nl,
     ''    <style>'', nl,
     ''        '']\<close>

definition print_media_block :: string where
  \<open>print_media_block = concat
    [nl,
     ''        @media print {'', nl,
     ''            h1, h2, h3 {'', nl,
     ''                page-break-before: auto;'', nl,
     ''            }'', nl,
     ''            pre, . code-block, figure, table, . mermaid-container {'', nl,
     ''                page-break-inside: avoid;'', nl,
     ''            }'', nl,
     ''            hr {'', nl,
     ''                page-break-after: auto;'', nl,
     ''            }'', nl,
     ''        }'', nl,
     ''        '']\<close>

definition shell_theme :: string where
  \<open>shell_theme = concat
    [nl,
     ''       </style>'', nl,
     ''    <style>'', nl,
     ''        /* '', [CHR 0xD8, CHR 0xAA, CHR 0xD9, CHR 0x86, CHR 0xD8, CHR 0xB8, CHR 0xDB, CHR 0x8C, CHR 0xD9, CHR 0x85, CHR 0xD8, CHR 0xA7, CHR 0xD8, CHR 0xAA], '' '', [CHR 0xDA, CHR 0xA9, CHR 0xD9, CHR 0x84, CHR 0xDB, CHR 0x8C], '' '', [CHR 0xD8, CHR 0xB5, CHR 0xD9, CHR 0x81, CHR 0xD8, CHR 0xAD, CHR 0xD9, CHR 0x87], '' */'', nl,
     ''        body {'', nl,
     ''            font-family: system-ui, -apple-system, sans-serif;'', nl,
     ''            line-height: 1.6;'', nl,
     ''            margin: 5%;'', nl,
     ''            max-width: max-content;'', nl,
     ''            padding: 10px;'', nl,
     ''            background-color: #ffffff;'', nl,
     ''            color: #24292e;'', nl,
     ''            direction: rtl;'', nl,
     ''            text-align: right;'', nl,
     ''        }'', nl,
     nl,
     ''        h1, h2, h3 {'', nl,
     ''            border-bottom: 1px solid #eaecef;'', nl,
     ''            padding-bottom: 0.3em;'', nl,
     ''            margin-top: 2em;'', nl,
     ''            margin-bottom: 1em;'', nl,
     ''        }'', nl,
     nl,
     ''        /* '', [CHR 0xD8, CHR 0xA7, CHR 0xD8, CHR 0xB3, CHR 0xD8, CHR 0xAA, CHR 0xD8, CHR 0xA7, CHR 0xDB, CHR 0x8C, CHR 0xD9, CHR 0x84], '' '', [CHR 0xD8, CHR 0xA8, CHR 0xD9, CHR 0x84, CHR 0xD9, CHR 0x88, CHR 0xDA, CHR 0xA9], '' '', [CHR 0xDA, CHR 0xA9, CHR 0xD8, CHR 0xAF], '' */'', nl,
     ''        .code-block {'', nl,
     ''            position: relative;'', nl,
     ''            margin: 1.5em 0;'', nl,
     ''            border: 1px solid #e1e4e8;'', nl,
     ''            border-radius: 6px;'', nl,
     ''            overflow: hidden;'', nl,
     ''            background-color: #f6f8fa;'', nl,
     ''        }'', nl,
     nl,
     ''        .code-header {'', nl,
     ''            display: flex;'', nl,
     ''            direction: ltr;'', nl,
     ''            justify-content: space-between;'', nl,
     ''            align-items: center;'', nl,
     ''            padding: 0.6rem 1rem;'', nl,
     ''            background-color: #f1f3f5;'', nl,
     ''            border-bottom: 1px solid #e1e4e8;'', nl,
     ''            font-size: 0.9em;'', nl,
     ''        }'', nl,
     nl,
     ''        .language {'', nl,
     ''            color: #586069;'', nl,
     ''            font-weight: 500;'', nl,
     ''        }'', nl,
     nl,
     ''        .copy-button {'', nl,
     ''            padding: 0.3rem 0.7rem;'', nl,
     ''            font-size: 0.85em;'', nl,
     ''            color: #24292e;'', nl,
     ''            background: transparent;'', nl,
     ''            border: 1px solid #d1d5da;'', nl,
     ''            border-radius: 4px;'', nl,
     ''            cursor: pointer;'', nl,
     ''            transition: all 0.2s;'', nl,
     ''        }'', nl,
     nl,
     ''        .copy-button:hover {'', nl,
     ''            background-color: #e9ecef;'', nl,
     ''            border-color: #c1c4c8;'', nl,
     ''        }'', nl,
     nl,
     ''        pre {'', nl,
     ''            margin: 0;'', nl,
     ''            padding: 1rem;'', nl,
     ''            overflow-x: auto;'', nl,
     ''            direction: ltr;'', nl,
     ''            text-align: left;'', nl,
     ''        }'', nl,
     nl,
     ''        pre code {'', nl,
     ''            font-family: SFMono-Regular, Consolas, 'Liberation Mono', Menlo, monospace;'', nl,
     ''            font-size: 0.95em;'', nl,
     ''        }'', nl,
     nl,
     ''        /* '', [CHR 0xD8, CHR 0xA7, CHR 0xD8, CHR 0xB7, CHR 0xD9, CHR 0x85, CHR 0xDB, CHR 0x8C, CHR 0xD9, CHR 0x86, CHR 0xD8, CHR 0xA7, CHR 0xD9, CHR 0x86], '' '', [CHR 0xD8, CHR 0xA7, CHR 0xD8, CHR 0xB2], '' '', [CHR 0xD8, CHR 0xAE, CHR 0xD9, CHR 0x88, CHR 0xD8, CHR 0xA7, CHR 0xD9, CHR 0x86, CHR 0xD8, CHR 0xA7, CHR 0xDB, CHR 0x8C, CHR 0xDB, CHR 0x8C], '' '', [CHR 0xD8, CHR 0xAF, CHR 0xD8, CHR 0xB1], '' RTL */'', nl,
     ''        code {'', nl,
     ''            direction: ltr;'', nl,
     ''            display: block;'', nl,
     ''        }'', nl,
     ''        img { display: block; max-width: fit-content; height: auto; margin-left: auto; margin-right: auto;'', nl,
     ''        max-width: 100%; box-sizing: content-box; }'', nl,
     ''        img.emoji { height: 1em; width: 1em; margin: 0 .05em 0 .1em; vertical-align: -0.1em; display: inline; }'', nl,
     ''         h1, h2, h3, h4, h5, h6 { font-weight: 600; margin-top: 24px; margin-bottom: 16px; line-height: 1.25; } '', nl,
     ''         h1 { font-size: 2em; border-bottom: 1px solid #eaecef; padding-bottom: 0.3em; margin-top: 0.67em 0; }'', nl,
     ''          h2 { font-size: 1.5em; border-bottom: 1px solid #eaecef; padding-bottom: 0.3em; margin-top: 1.5em; }'', nl,
     ''           h3 { font-size: 1.25em; margin-top: 1.25em; } h4 { font-size: 1em; margin-top: 1em; }'', nl,
     ''            a { color: #0366d6; text-decoration: none; } a:hover { text-decoration: underline; }'', nl,
     ''             strong { font-weight: 600; }'', nl,
     ''    </style> '', nl,
     ''</head>'', nl,
     ''<body>'', nl,
     ''    '']\<close>

definition shell_tail :: string where
  \<open>shell_tail = concat
    [nl,
     ''</body>'', nl,
     ''</html>'']\<close>

definition document :: \<open>bool \<Rightarrow> string option \<Rightarrow> string \<Rightarrow> string\<close> where
  \<open>document isForPdf vendor htmlContent =
     shell_head @ highlight_css_url vendor @
     shell_second_link @ katex_css_url vendor @
     shell_after_links @ mermaid_bootstrap @
     shell_highlight_script @ highlight_js_url vendor @
     shell_scripts @ (if isForPdf then print_media_block else []) @
     shell_theme @ htmlContent @ shell_tail\<close>

section \<open>\<^verbatim>\<open>getHtmlForWebview\<close>\<close>

text \<open>
  The HTML fragment before assembly: the engine's output, sanitized, and rewritten by the emoji
  library when the document is for PDF. An exception thrown by a library ends the call.
\<close>

definition sanitized_fragment :: \<open>libs \<Rightarrow> marked_state \<Rightarrow> string \<Rightarrow> js_error + string\<close> where
  \<open>sanitized_fragment L st markdownContent =
     (case marked_parse L st markdownContent of
        Inl error \<Rightarrow> Inl error
      | Inr htmlContent \<Rightarrow> DOMPurify_sanitize L htmlContent sanitize_options)\<close>

definition body_fragment :: \<open>libs \<Rightarrow> marked_state \<Rightarrow> string \<Rightarrow> bool \<Rightarrow> js_error + string\<close> where
  \<open>body_fragment L st markdownContent isForPdf =
     (case sanitized_fragment L st markdownContent of
        Inl error \<Rightarrow> Inl error
      | Inr htmlContent \<Rightarrow>
          if isForPdf then twemoji_parse L htmlContent emoji_options else Inr htmlContent)\<close>

text \<open>
  The call takes the state of the shared \<^verbatim>\<open>marked\<close> object and returns it with the result:
  \<^verbatim>\<open>marked.use(markedKatex())\<close> and \<^verbatim>\<open>marked.setOptions(markedOptions)\<close> run on every call,
  before \<^verbatim>\<open>marked.parse\<close>. The default \<^verbatim>\<open>false\<close> of \<open>isForPdf\<close> is resolved by the caller.
\<close>

definition getHtmlForWebview ::
  \<open>libs \<Rightarrow> marked_state \<Rightarrow> string \<Rightarrow> bool \<Rightarrow> string option \<Rightarrow> (js_error + string) \<times> marked_state\<close> where
  \<open>getHtmlForWebview L st markdownContent isForPdf assetBase =
     (let st' = st @ [marked_use markedKatex, marked_setOptions (markedOptions L)] in
      (case body_fragment L st' markdownContent isForPdf of
         Inl error \<Rightarrow> Inl error
       | Inr htmlContent \<Rightarrow> Inr (document isForPdf (vendor_of assetBase) htmlContent),
       st'))\<close>

section \<open>The diagram bootstrap script at page load\<close>

text \<open>
  \<open>mermaid_bootstrap\<close> is a module script that the page runs, not the pipeline. To say what
  a page does with it, the script is read as a program: \<open>bootstrap_script\<close> is its syntax tree,
  in a syntax with the seven forms of statement the script is written with, and
  \<open>module_text\<close> writes a tree back as text, with the template's layout.
\<close>

definition spaces :: \<open>nat \<Rightarrow> string\<close> where
  \<open>spaces n = replicate n CHR '' ''\<close>

fun separated :: \<open>string \<Rightarrow> string list \<Rightarrow> string\<close> where
  \<open>separated sep [] = []\<close>
| \<open>separated sep [x] = x\<close>
| \<open>separated sep (x # y # xs) = x @ sep @ separated sep (y # xs)\<close>

datatype js_value = JsTrue | JsString string | JsVar string

text \<open>
  A statement is an empty line, a line comment, a call with one object literal (awaited or
  not; the flag after the callee is the blank the template has after \<^verbatim>\<open>({\<close>), a call with
  plain arguments, an assignment to a property of \<^verbatim>\<open>window\<close>, \<^verbatim>\<open>try\<close>/\<^verbatim>\<open>catch\<close>, or
  \<^verbatim>\<open>window.addEventListener(event, async () => { ... })\<close>.
\<close>

datatype js_stmt =
    Blank
  | LineComment string
  | CallWithObject bool string bool \<open>(string \<times> js_value) list\<close>
  | CallWithArgs string \<open>js_value list\<close>
  | AssignWindow string js_value
  | TryCatch \<open>js_stmt list\<close> string \<open>js_stmt list\<close>
  | OnWindowEvent string \<open>js_stmt list\<close>

record js_module =
  module_imports :: \<open>(string \<times> string) list\<close>
  module_body :: \<open>js_stmt list\<close>

definition bootstrap_script :: js_module where
  \<open>bootstrap_script =
     \<lparr>module_imports =
        [(''mermaid'', ''https://cdn.jsdelivr.net/npm/mermaid@10/dist/mermaid.esm.min.mjs'')],
      module_body =
        [Blank,
         CallWithObject False ''mermaid.initialize'' True
           [(''startOnLoad'', JsTrue),
            (''theme'', JsString ''default''),
            (''securityLevel'', JsString ''loose''),
            (''fontFamily'',
             JsString ''-apple-system, BlinkMacSystemFont, "Segoe UI", Roboto, sans-serif'')],
         Blank,
         LineComment
           ([CHR 0xD8, CHR 0xA8, CHR 0xD8, CHR 0xB1, CHR 0xD8, CHR 0xA7, CHR 0xDB, CHR 0x8C] @
            '' PDF export'' @ [CHR 0xD8, CHR 0x8C] @ '' '' @
            [CHR 0xD8, CHR 0xB5, CHR 0xD8, CHR 0xA8, CHR 0xD8, CHR 0xB1] @ '' '' @
            [CHR 0xDA, CHR 0xA9, CHR 0xD9, CHR 0x86, CHR 0xDB, CHR 0x8C, CHR 0xD8, CHR 0xAF] @
            '' '' @ [CHR 0xD8, CHR 0xAA, CHR 0xD8, CHR 0xA7] @ '' '' @
            [CHR 0xD9, CHR 0x87, CHR 0xD9, CHR 0x85, CHR 0xD9, CHR 0x87] @ '' '' @
            [CHR 0xD9, CHR 0x86, CHR 0xD9, CHR 0x85, CHR 0xD9, CHR 0x88, CHR 0xD8, CHR 0xAF, CHR 0xD8, CHR 0xA7, CHR 0xD8, CHR 0xB1, CHR 0xD9, CHR 0x87, CHR 0xD8, CHR 0xA7] @
            '' '' @
            [CHR 0xD8, CHR 0xB1, CHR 0xD9, CHR 0x86, CHR 0xD8, CHR 0xAF, CHR 0xD8, CHR 0xB1] @
            '' '' @
            [CHR 0xD8, CHR 0xB4, CHR 0xD9, CHR 0x88, CHR 0xD9, CHR 0x86, CHR 0xD8, CHR 0xAF]),
         OnWindowEvent ''load''
           [TryCatch
              [CallWithObject True ''mermaid.run'' False [(''querySelector'', JsString ''.mermaid'')],
               LineComment
                 ([CHR 0xD8, CHR 0xB3, CHR 0xDB, CHR 0x8C, CHR 0xDA, CHR 0xAF, CHR 0xD9, CHR 0x86, CHR 0xD8, CHR 0xA7, CHR 0xD9, CHR 0x84] @
                  '' '' @ [CHR 0xD8, CHR 0xA8, CHR 0xD9, CHR 0x87] @ '' Puppeteer '' @
                  [CHR 0xDA, CHR 0xA9, CHR 0xD9, CHR 0x87] @ '' '' @
                  [CHR 0xD8, CHR 0xB1, CHR 0xD9, CHR 0x86, CHR 0xD8, CHR 0xAF, CHR 0xD8, CHR 0xB1] @
                  '' '' @
                  [CHR 0xD8, CHR 0xAA, CHR 0xD9, CHR 0x85, CHR 0xD8, CHR 0xA7, CHR 0xD9, CHR 0x85] @
                  '' '' @ [CHR 0xD8, CHR 0xB4, CHR 0xD8, CHR 0xAF, CHR 0xD9, CHR 0x87]),
               AssignWindow ''mermaidReady'' JsTrue]
              ''error''
              [CallWithArgs ''console.error'' [JsString ''Mermaid rendering error:'', JsVar ''error''],
               AssignWindow ''mermaidReady'' JsTrue]]]\<rparr>\<close>

fun value_text :: \<open>js_value \<Rightarrow> string\<close> where
  \<open>value_text JsTrue = ''true''\<close>
| \<open>value_text (JsString s) = [CHR 0x27] @ s @ [CHR 0x27]\<close>
| \<open>value_text (JsVar name) = name\<close>

fun stmt_text :: \<open>nat \<Rightarrow> js_stmt \<Rightarrow> string\<close> where
  \<open>stmt_text n Blank = spaces n @ nl\<close>
| \<open>stmt_text n (LineComment words) = spaces n @ ''// '' @ words @ nl\<close>
| \<open>stmt_text n (CallWithObject awaited callee padded entries) =
     spaces n @ (if awaited then ''await '' else []) @ callee @ ''({'' @
     (if padded then '' '' else []) @ nl @
     separated ('','' @ nl) (map (\<lambda>(key, v). spaces (n + 4) @ key @ '': '' @ value_text v) entries) @ nl @
     spaces n @ ''});'' @ nl\<close>
| \<open>stmt_text n (CallWithArgs callee args) =
     spaces n @ callee @ ''('' @ separated '', '' (map value_text args) @ '');'' @ nl\<close>
| \<open>stmt_text n (AssignWindow name v) = spaces n @ ''window.'' @ name @ '' = '' @ value_text v @ '';'' @ nl\<close>
| \<open>stmt_text n (TryCatch block error handler) =
     spaces n @ ''try {'' @ nl @ concat (map (stmt_text (n + 4)) block) @
     spaces n @ ''} catch ('' @ error @ '') {'' @ nl @ concat (map (stmt_text (n + 4)) handler) @
     spaces n @ ''}'' @ nl\<close>
| \<open>stmt_text n (OnWindowEvent event handler) =
     spaces n @ ''window.addEventListener('' @ [CHR 0x27] @ event @ [CHR 0x27] @
      '', async () => {'' @ nl @
     concat (map (stmt_text (n + 4)) handler) @ spaces n @ ''});'' @ nl\<close>

definition module_text :: \<open>js_module \<Rightarrow> string\<close> where
  \<open>module_text m =
     ''    <script type="module">'' @ nl @
     concat (map (\<lambda>(name, url). spaces 8 @ ''import '' @ name @ '' from '' @ [CHR 0x27] @
      url @
                    [CHR 0x27] @ '';'' @ nl) (module_imports m)) @
     concat (map (stmt_text 8) (module_body m)) @
     ''    </script>'' @ nl\<close>

text \<open>
  What the page does is decided by what is outside the script: whether the module an
  \<^verbatim>\<open>import\<close> names can be loaded, and what each function the script calls does. A call
  returns, throws, or never comes back; for the awaited \<^verbatim>\<open>mermaid.run\<close> these are the promise
  fulfilled, rejected, and never settled.
\<close>

datatype outcome = Returns | Throws js_error | Never

record page_env =
  module_loads :: \<open>string \<Rightarrow> bool\<close>
  call_outcome :: \<open>string \<Rightarrow> outcome\<close>

datatype page_effect = called string | assigned string js_value

datatype completion = Normal | Thrown js_error | Suspended

fun completion_of :: \<open>outcome \<Rightarrow> completion\<close> where
  \<open>completion_of Returns = Normal\<close>
| \<open>completion_of (Throws error) = Thrown error\<close>
| \<open>completion_of Never = Suspended\<close>

text \<open>
  Running a statement gives the effects in their order, the listeners it has registered, and
  how it ended. A statement after one that threw or never returned does not run;
  \<^verbatim>\<open>catch\<close> takes over after a throw, and only then. A listener is registered when
  \<^verbatim>\<open>addEventListener\<close> returns.
\<close>

fun exec :: \<open>page_env \<Rightarrow> js_stmt \<Rightarrow> page_effect list \<times> (string \<times> js_stmt list) list \<times> completion\<close>
  and exec_all :: \<open>page_env \<Rightarrow> js_stmt list \<Rightarrow> page_effect list \<times> (string \<times> js_stmt list) list \<times> completion\<close>
  where
  \<open>exec env Blank = ([], [], Normal)\<close>
| \<open>exec env (LineComment words) = ([], [], Normal)\<close>
| \<open>exec env (CallWithObject awaited callee padded entries) =
     ([called callee], [], completion_of (call_outcome env callee))\<close>
| \<open>exec env (CallWithArgs callee args) = ([called callee], [], completion_of (call_outcome env callee))\<close>
| \<open>exec env (AssignWindow name v) = ([assigned name v], [], Normal)\<close>
| \<open>exec env (TryCatch block error handler) =
     (case exec_all env block of
        (effects, listeners, Thrown thrown) \<Rightarrow>
          (case exec_all env handler of
             (effects', listeners', c) \<Rightarrow> (effects @ effects', listeners @ listeners', c))
      | finished \<Rightarrow> finished)\<close>
| \<open>exec env (OnWindowEvent event handler) =
     ([called ''window.addEventListener''],
      (case call_outcome env ''window.addEventListener'' of Returns \<Rightarrow> [(event, handler)] | _ \<Rightarrow> []),
      completion_of (call_outcome env ''window.addEventListener''))\<close>
| \<open>exec_all env [] = ([], [], Normal)\<close>
| \<open>exec_all env (s # rest) =
     (case exec env s of
        (effects, listeners, Normal) \<Rightarrow>
          (case exec_all env rest of
             (effects', listeners', c) \<Rightarrow> (effects @ effects', listeners @ listeners', c))
      | stopped \<Rightarrow> stopped)\<close>

text \<open>
  A module whose import cannot be loaded is not evaluated at all. One document load evaluates
  the module and then fires \<^verbatim>\<open>load\<close> once: every listener registered for it runs, and an
  exception in an \<^verbatim>\<open>async\<close> listener stays in the listener.
\<close>

definition evaluate_module ::
  \<open>page_env \<Rightarrow> js_module \<Rightarrow> page_effect list \<times> (string \<times> js_stmt list) list \<times> completion\<close> where
  \<open>evaluate_module env m =
     (if list_all (\<lambda>(name, url). module_loads env url) (module_imports m)
      then exec_all env (module_body m) else ([], [], Normal))\<close>

definition fire :: \<open>page_env \<Rightarrow> string \<Rightarrow> (string \<times> js_stmt list) list \<Rightarrow> page_effect list\<close> where
  \<open>fire env event listeners =
     concat (map (\<lambda>(registered, handler). if registered = event then fst (exec_all env handler) else [])
               listeners)\<close>

definition document_load :: \<open>page_env \<Rightarrow> js_module \<Rightarrow> page_effect list\<close> where
  \<open>document_load env m =
     (case evaluate_module env m of (effects, listeners, c) \<Rightarrow> effects @ fire env ''load'' listeners)\<close>

text \<open>
  The value of a property of \<^verbatim>\<open>window\<close> after a run of effects (\<open>None\<close> is \<^verbatim>\<open>undefined\<close>, the
  value before any assignment), and the assignments to it among the effects.
\<close>

fun window_value :: \<open>string \<Rightarrow> js_value option \<Rightarrow> page_effect list \<Rightarrow> js_value option\<close> where
  \<open>window_value name v [] = v\<close>
| \<open>window_value name v (assigned name' v' # effects) =
     window_value name (if name' = name then Some v' else v) effects\<close>
| \<open>window_value name v (called callee # effects) = window_value name v effects\<close>

fun assigns :: \<open>string \<Rightarrow> page_effect \<Rightarrow> bool\<close> where
  \<open>assigns name (assigned name' v) = (name' = name)\<close>
| \<open>assigns name (called callee) = False\<close>

text \<open>
  The pages on which the script runs to its end: the diagram runtime has been loaded,
  \<^verbatim>\<open>mermaid.initialize\<close> and \<^verbatim>\<open>window.addEventListener\<close> return, and the promise of
  \<^verbatim>\<open>mermaid.run\<close> settles, where after a rejection \<^verbatim>\<open>console.error\<close> returns.
\<close>

definition script_completes :: \<open>page_env \<Rightarrow> bool\<close> where
  \<open>script_completes env =
     (module_loads env ''https://cdn.jsdelivr.net/npm/mermaid@10/dist/mermaid.esm.min.mjs'' \<and>
      call_outcome env ''mermaid.initialize'' = Returns \<and>
      call_outcome env ''window.addEventListener'' = Returns \<and>
      (case call_outcome env ''mermaid.run'' of
         Returns \<Rightarrow> True
       | Throws error \<Rightarrow> call_outcome env ''console.error'' = Returns
       | Never \<Rightarrow> False))\<close>

section \<open>The rules of the print-media block\<close>

text \<open>
  \<open>print_media_block\<close> read as a style sheet: a rule is its selectors, as the template
  separates them with commas, and its declarations. \<open>media_print_text\<close> writes rules back as
  the text of an \<^verbatim>\<open>@media print\<close> block, with the template's layout.
\<close>

datatype css_rule = Rule \<open>string list\<close> \<open>(string \<times> string) list\<close>

fun css_rule_text :: \<open>css_rule \<Rightarrow> string\<close> where
  \<open>css_rule_text (Rule selectors declarations) =
     spaces 12 @ separated '', '' selectors @ '' {'' @ nl @
     concat (map (\<lambda>(property, val). spaces 16 @ property @ '': '' @ val @ '';'' @ nl) declarations) @
     spaces 12 @ ''}'' @ nl\<close>

definition media_print_text :: \<open>css_rule list \<Rightarrow> string\<close> where
  \<open>media_print_text rules =
     nl @ spaces 8 @ ''@media print {'' @ nl @ concat (map css_rule_text rules) @
     spaces 8 @ ''}'' @ nl @ spaces 8\<close>

definition print_media_rules :: \<open>css_rule list\<close> where
  \<open>print_media_rules =
     [Rule [''h1'', ''h2'', ''h3''] [(''page-break-before'', ''auto'')],
      Rule [''pre'', ''. code-block'', ''figure'', ''table'', ''. mermaid-container'']
        [(''page-break-inside'', ''avoid'')],
      Rule [''hr''] [(''page-break-after'', ''auto'')]]\<close>

fun selectors_of :: \<open>css_rule \<Rightarrow> string list\<close> where
  \<open>selectors_of (Rule selectors declarations) = selectors\<close>

fun selects :: \<open>string \<Rightarrow> css_rule \<Rightarrow> bool\<close> where
  \<open>selects name (Rule selectors declarations) = (name \<in> set selectors)\<close>

text \<open>A rule that keeps the renderer from breaking a page has a declaration with the value \<^verbatim>\<open>avoid\<close>.\<close>

fun avoids_break :: \<open>css_rule \<Rightarrow> bool\<close> where
  \<open>avoids_break (Rule selectors declarations) = (''avoid'' \<in> set (map snd declarations))\<close>

section \<open>Notions used to state the properties\<close>

text \<open>
  HTML escaping as the specification means it: the characters \<^verbatim>\<open>&\<close>, \<^verbatim>\<open><\<close>, \<^verbatim>\<open>>\<close>, \<^verbatim>\<open>"\<close> and
  \<^verbatim>\<open>'\<close> written as character references. The source has no such function.
\<close>

fun escape_char :: \<open>char \<Rightarrow> string\<close> where
  \<open>escape_char c =
     (if c = CHR ''&'' then ''&amp;''
      else if c = CHR ''<'' then ''&lt;''
      else if c = CHR ''>'' then ''&gt;''
      else if c = CHR 0x22 then ''&quot;''
      else if c = CHR 0x27 then ''&#39;''
      else [c])\<close>

definition escape_html :: \<open>string \<Rightarrow> string\<close> where
  \<open>escape_html s = concat (map escape_char s)\<close>

text \<open>The text that the two block templates have between the language label and \<^verbatim>\<open><pre>\<close>.\<close>

definition copy_button_header :: string where
  \<open>copy_button_header = concat
    [''</span>'', nl,
     ''                        <button class="copy-button" onclick="copyToClipboard(this)" title="Copy to clipboard">'', nl,
     ''                            <svg width="16" height="16" viewBox="0 0 24 24" fill="none" stroke="currentColor" stroke-width="2">'', nl,
     ''                                <rect x="9" y="9" width="13" height="13" rx="2" ry="2"></rect>'', nl,
     ''                                <path d="M5 15H4a2 2 0 0 1-2-2V4a2 2 0 0 1 2-2h9a2 2 0 0 1 2 2v1"></path>'', nl,
     ''                            </svg>'', nl,
     ''                        </button>'', nl,
     ''                    </div>'', nl,
     ''                    '']\<close>

text \<open>\<open>occurs_in sub s\<close>: the text \<open>sub\<close> occurs somewhere in \<open>s\<close>.\<close>

fun occurs_in :: \<open>string \<Rightarrow> string \<Rightarrow> bool\<close> where
  \<open>occurs_in sub [] = (sub = [])\<close>
| \<open>occurs_in sub (c # s) = (take (length sub) (c # s) = sub \<or> occurs_in sub s)\<close>

text \<open>
  The state of the shared \<^verbatim>\<open>marked\<close> object after a sequence of calls of
  \<^verbatim>\<open>getHtmlForWebview\<close>, each given by its three arguments.
\<close>

fun after_calls :: \<open>libs \<Rightarrow> marked_state \<Rightarrow> (string \<times> bool \<times> string option) list \<Rightarrow> marked_state\<close> where
  \<open>after_calls L st [] = st\<close>
| \<open>after_calls L st ((markdownContent, isForPdf, assetBase) # calls) =
     after_calls L (snd (getHtmlForWebview L st markdownContent isForPdf assetBase)) calls\<close>

text \<open>The document template up to the place of the print-media block.\<close>

definition shell_before_print_block :: \<open>string option \<Rightarrow> string\<close> where
  \<open>shell_before_print_block vendor =
     shell_head @ highlight_css_url vendor @ shell_second_link @ katex_css_url vendor @
     shell_after_links @ mermaid_bootstrap @ shell_highlight_script @ highlight_js_url vendor @
     shell_scripts\<close>

section \<open>What the emoji library and the sanitizer are taken to do\<close>

text \<open>
  Two properties are about what \<^verbatim>\<open>twemoji.parse\<close> and \<^verbatim>\<open>DOMPurify.sanitize\<close> return. Neither
  package is in the repository, so what they do is written down here from the specification,
  and a theorem about it assumes that the library in \<open>L\<close> is the function written here.
\<close>

subsection \<open>The emoji postprocessor\<close>

text \<open>
  Modelled from the spec: \<^verbatim>\<open>twemoji.parse\<close> on a string, which is not in the repository. The
  specification has it scan the text for emoji code points and replace each with an image
  reference into a remote image set, built from a base locator and a file extension. The
  glyphs the library knows are a parameter, a table from the bytes of a glyph to the name of
  its image; the image reference is the \<^verbatim>\<open>img\<close> element of the library, whose address is
  made of the options \<open>base\<close>, \<open>folder\<close> and \<open>ext\<close>.
\<close>

type_synonym glyph_table = \<open>(string \<times> string) list\<close>

definition image_reference :: \<open>twemoji_options \<Rightarrow> string \<Rightarrow> string \<Rightarrow> string\<close> where
  \<open>image_reference opts glyph icon =
     ''<img class="emoji" draggable="false" alt="'' @ glyph @ ''" src="'' @
     base opts @ folder opts @ ''/'' @ icon @ ext opts @ ''"/>''\<close>

text \<open>The glyph that starts at the head of a text: the first entry of the table that does.\<close>

definition glyph_at :: \<open>glyph_table \<Rightarrow> string \<Rightarrow> (string \<times> string) option\<close> where
  \<open>glyph_at table s = find (\<lambda>(glyph, icon). glyph \<noteq> [] \<and> take (length glyph) s = glyph) table\<close>

text \<open>
  The scan, from left to right: at a glyph the image reference is written and the bytes of
  the glyph are passed over (\<open>skip\<close> counts those still to pass), any other byte is copied.
\<close>

fun rewrite_glyphs :: \<open>glyph_table \<Rightarrow> twemoji_options \<Rightarrow> nat \<Rightarrow> string \<Rightarrow> string\<close> where
  \<open>rewrite_glyphs table opts skip [] = []\<close>
| \<open>rewrite_glyphs table opts (Suc skip) (c # s) = rewrite_glyphs table opts skip s\<close>
| \<open>rewrite_glyphs table opts 0 (c # s) =
     (case glyph_at table (c # s) of
        None \<Rightarrow> c # rewrite_glyphs table opts 0 s
      | Some (glyph, icon) \<Rightarrow>
          image_reference opts glyph icon @ rewrite_glyphs table opts (length glyph - 1) s)\<close>

text \<open>Modelled from the spec: the emoji postprocessor as a library function; it does not throw.\<close>

definition twemoji_model :: \<open>glyph_table \<Rightarrow> string \<Rightarrow> twemoji_options \<Rightarrow> js_error + string\<close> where
  \<open>twemoji_model table s opts = Inr (rewrite_glyphs table opts 0 s)\<close>

text \<open>A text free of emoji glyphs: no glyph of the table starts anywhere in it.\<close>

fun glyph_free :: \<open>glyph_table \<Rightarrow> string \<Rightarrow> bool\<close> where
  \<open>glyph_free table [] = True\<close>
| \<open>glyph_free table (c # s) = (glyph_at table (c # s) = None \<and> glyph_free table s)\<close>

text \<open>
  A text cut into its glyphs and the stretches between them. \<open>source\<close> is the text that was
  cut and \<open>rewritten\<close> the same pieces with every glyph replaced by its image reference.
  \<open>scanned\<close> holds when the cut is the one a scan from the left makes: every \<open>Glyph\<close> piece is
  the glyph found at its place, and no glyph starts inside a \<open>Plain\<close> piece.
\<close>

datatype piece = Plain string | Glyph string string

fun source :: \<open>piece list \<Rightarrow> string\<close> where
  \<open>source [] = []\<close>
| \<open>source (Plain plain # pieces) = plain @ source pieces\<close>
| \<open>source (Glyph glyph icon # pieces) = glyph @ source pieces\<close>

fun rewritten :: \<open>twemoji_options \<Rightarrow> piece list \<Rightarrow> string\<close> where
  \<open>rewritten opts [] = []\<close>
| \<open>rewritten opts (Plain plain # pieces) = plain @ rewritten opts pieces\<close>
| \<open>rewritten opts (Glyph glyph icon # pieces) = image_reference opts glyph icon @ rewritten opts pieces\<close>

fun no_glyph_starts :: \<open>glyph_table \<Rightarrow> string \<Rightarrow> string \<Rightarrow> bool\<close> where
  \<open>no_glyph_starts table [] rest = True\<close>
| \<open>no_glyph_starts table (c # plain) rest =
     (glyph_at table (c # plain @ rest) = None \<and> no_glyph_starts table plain rest)\<close>

fun scanned :: \<open>glyph_table \<Rightarrow> piece list \<Rightarrow> bool\<close> where
  \<open>scanned table [] = True\<close>
| \<open>scanned table (Plain plain # pieces) = (no_glyph_starts table plain (source pieces) \<and> scanned table pieces)\<close>
| \<open>scanned table (Glyph glyph icon # pieces) =
     (glyph_at table (glyph @ source pieces) = Some (glyph, icon) \<and> scanned table pieces)\<close>

subsection \<open>The sanitizer\<close>

text \<open>
  Modelled from the spec: \<^verbatim>\<open>DOMPurify.sanitize\<close>, which is not in the repository. The
  specification has it keep the tags and attributes of a default safe-HTML profile and of the
  allow-list given with the call, and remove every other tag and attribute. The markup is a
  sequence of tokens: text, an opening tag with its attributes, a closing tag. How markup is
  read into tokens and written back, and the names the profile allows, are parameters.
\<close>

datatype html_token = Text string | Open string \<open>(string \<times> string) list\<close> | Close string

text \<open>The profile counts when the configuration selects it with \<^verbatim>\<open>USE_PROFILES: { html: true }\<close>.\<close>

definition allowed_tags :: \<open>string list \<Rightarrow> sanitize_config \<Rightarrow> string list\<close> where
  \<open>allowed_tags profile_tags config =
     (if (''html'', True) \<in> set (USE_PROFILES config) then profile_tags else []) @ ADD_TAGS config\<close>

definition allowed_attrs :: \<open>string list \<Rightarrow> sanitize_config \<Rightarrow> string list\<close> where
  \<open>allowed_attrs profile_attrs config =
     (if (''html'', True) \<in> set (USE_PROFILES config) then profile_attrs else []) @ ADD_ATTR config\<close>

text \<open>
  A tag that is not allowed goes, the opening and the closing one, and the text between them
  stays; an allowed tag keeps those of its attributes that are allowed.
\<close>

fun sanitize_token :: \<open>string list \<Rightarrow> string list \<Rightarrow> html_token \<Rightarrow> html_token list\<close> where
  \<open>sanitize_token tags attrs (Text plain) = [Text plain]\<close>
| \<open>sanitize_token tags attrs (Open name attributes) =
     (if name \<in> set tags then [Open name (filter (\<lambda>(a, v). a \<in> set attrs) attributes)] else [])\<close>
| \<open>sanitize_token tags attrs (Close name) = (if name \<in> set tags then [Close name] else [])\<close>

definition sanitize_tokens :: \<open>string list \<Rightarrow> string list \<Rightarrow> html_token list \<Rightarrow> html_token list\<close> where
  \<open>sanitize_tokens tags attrs tokens = concat (map (sanitize_token tags attrs) tokens)\<close>

text \<open>Modelled from the spec: the sanitizer as a library function; it does not throw.\<close>

definition sanitizer_model ::
  \<open>(string \<Rightarrow> html_token list) \<Rightarrow> (html_token list \<Rightarrow> string) \<Rightarrow> string list \<Rightarrow> string list \<Rightarrow>
   string \<Rightarrow> sanitize_config \<Rightarrow> js_error + string\<close> where
  \<open>sanitizer_model parse serialize profile_tags profile_attrs html config =
     Inr (serialize (sanitize_tokens (allowed_tags profile_tags config)
                       (allowed_attrs profile_attrs config) (parse html)))\<close>

text \<open>The names of the tags, the names of the attributes and the text of a sequence of tokens.\<close>

fun tag_names :: \<open>html_token list \<Rightarrow> string list\<close> where
  \<open>tag_names [] = []\<close>
| \<open>tag_names (Text plain # tokens) = tag_names tokens\<close>
| \<open>tag_names (Open name attributes # tokens) = name # tag_names tokens\<close>
| \<open>tag_names (Close name # tokens) = name # tag_names tokens\<close>

fun attr_names :: \<open>html_token list \<Rightarrow> string list\<close> where
  \<open>attr_names [] = []\<close>
| \<open>attr_names (Open name attributes # tokens) = map fst attributes @ attr_names tokens\<close>
| \<open>attr_names (token # tokens) = attr_names tokens\<close>

fun text_of :: \<open>html_token list \<Rightarrow> string\<close> where
  \<open>text_of [] = []\<close>
| \<open>text_of (Text plain # tokens) = plain @ text_of tokens\<close>
| \<open>text_of (token # tokens) = text_of tokens\<close>

section \<open>A sample instance of the libraries\<close>

text \<open>
  Concrete library functions on which the definitions can be run. The highlighter knows three
  languages, escapes the code and throws on any other language, as \<^verbatim>\<open>hljs.highlight\<close> does
  for a language that is not registered. The Markdown engine knows one shape of input, a
  document that is a single fenced block, and hands its text and tag to the handler installed
  by the latest \<^verbatim>\<open>setOptions\<close>; any other input becomes a paragraph. The sanitizer keeps
  every tag and writes a \<^verbatim>\<open>>\<close> of the text between tags as \<^verbatim>\<open>&gt;\<close>, as the serialisation of
  a parsed document does. The emoji library rewrites one glyph, U+1F600.
\<close>

definition registered_languages :: \<open>string list\<close> where
  \<open>registered_languages = [''plaintext'', ''python'', ''javascript'']\<close>

definition sample_getLanguage :: \<open>string \<Rightarrow> js_error + bool\<close> where
  \<open>sample_getLanguage lang = Inr (lang \<in> set registered_languages)\<close>

definition sample_highlight :: \<open>string \<Rightarrow> string \<Rightarrow> js_error + string\<close> where
  \<open>sample_highlight code lang =
     (if lang \<in> set registered_languages then Inr (escape_html code)
      else Inl (JsError ''Unknown language''))\<close>

fun current_renderer :: \<open>marked_state \<Rightarrow> (string \<Rightarrow> string option \<Rightarrow> js_error + string) option\<close> where
  \<open>current_renderer [] = None\<close>
| \<open>current_renderer (marked_use e # st) = current_renderer st\<close>
| \<open>current_renderer (marked_setOptions opts # st) =
     (case current_renderer st of None \<Rightarrow> Some (renderer opts) | Some r \<Rightarrow> Some r)\<close>

definition fence :: string where
  \<open>fence = ''```''\<close>

definition single_fenced_block :: \<open>string \<Rightarrow> (string \<times> string) option\<close> where
  \<open>single_fenced_block md =
     (if 7 \<le> length md \<and> take 3 md = fence \<and> drop (length md - 4) md = nl @ fence
      then (let inner = drop 3 (take (length md - 4) md);
                tag = takeWhile (\<lambda>c. c \<noteq> CHR 0x0A) inner
            in Some (tag, drop (Suc (length tag)) inner))
      else None)\<close>

definition sample_marked_parse :: \<open>marked_state \<Rightarrow> string \<Rightarrow> js_error + string\<close> where
  \<open>sample_marked_parse st md =
     (case (single_fenced_block md, current_renderer st) of
        (Some (tag, code), Some r) \<Rightarrow> r code (if tag = [] then None else Some tag)
      | _ \<Rightarrow> Inr (''<p>'' @ md @ ''</p>'' @ nl))\<close>

fun serialize_text :: \<open>bool \<Rightarrow> string \<Rightarrow> string\<close> where
  \<open>serialize_text in_tag [] = []\<close>
| \<open>serialize_text in_tag (c # cs) =
     (if in_tag then c # serialize_text (c \<noteq> CHR ''>'') cs
      else if c = CHR ''<'' then c # serialize_text True cs
      else if c = CHR ''>'' then ''&gt;'' @ serialize_text False cs
      else c # serialize_text False cs)\<close>

definition sample_sanitize :: \<open>string \<Rightarrow> sanitize_config \<Rightarrow> js_error + string\<close> where
  \<open>sample_sanitize html config = Inr (serialize_text False html)\<close>

definition grinning_face :: string where
  \<open>grinning_face = [CHR 0xF0, CHR 0x9F, CHR 0x98, CHR 0x80]\<close>

fun replace_grinning :: \<open>string \<Rightarrow> string \<Rightarrow> string\<close> where
  \<open>replace_grinning img (a # b # c # d # s) =
     (if [a, b, c, d] = [CHR 0xF0, CHR 0x9F, CHR 0x98, CHR 0x80] then img @ replace_grinning img s
      else a # replace_grinning img (b # c # d # s))\<close>
| \<open>replace_grinning img s = s\<close>

definition sample_twemoji :: \<open>string \<Rightarrow> twemoji_options \<Rightarrow> js_error + string\<close> where
  \<open>sample_twemoji s opts =
     Inr (replace_grinning
            (''<img class="emoji" draggable="false" alt="'' @ grinning_face @ ''" src="'' @
             base opts @ folder opts @ ''/1f600'' @ ext opts @ ''"/>'') s)\<close>

definition sample_libs :: libs where
  \<open>sample_libs =
     \<lparr>hljs_getLanguage = sample_getLanguage,
      hljs_highlight = sample_highlight,
      marked_parse = sample_marked_parse,
      DOMPurify_sanitize = sample_sanitize,
      twemoji_parse = sample_twemoji\<rparr>\<close>

text \<open>The same libraries with a highlighter that throws on every input.\<close>

definition failing_highlight_libs :: libs where
  \<open>failing_highlight_libs =
     sample_libs\<lparr>hljs_highlight := (\<lambda>code lang. Inl (JsError ''highlight failed''))\<rparr>\<close>

text \<open>A document that is one diagram block.\<close>

definition arrow_diagram :: string where
  \<open>arrow_diagram = fence @ ''mermaid'' @ nl @ ''graph TD; A-->B'' @ nl @ fence\<close>

subsection \<open>The libraries with the modelled sanitizer and emoji postprocessor\<close>

text \<open>
  A reader and a writer of markup for the sanitizer to work on: tags are what stands between
  \<^verbatim>\<open><\<close> and \<^verbatim>\<open>>\<close>, attributes are written \<^verbatim>\<open>name="value"\<close>, and a \<^verbatim>\<open>>\<close> in text is written
  \<^verbatim>\<open>&gt;\<close>.
\<close>

datatype attr_mode = Name | Quote | Val

fun lex_attrs :: \<open>attr_mode \<Rightarrow> string \<Rightarrow> string \<Rightarrow> string \<Rightarrow> (string \<times> string) list\<close> where
  \<open>lex_attrs mode name val [] = (if name = [] then [] else [(name, val)])\<close>
| \<open>lex_attrs Name name val (c # s) =
     (if c = CHR '' '' then (if name = [] then [] else [(name, [])]) @ lex_attrs Name [] [] s
      else if c = CHR ''='' then lex_attrs Quote name [] s
      else lex_attrs Name (name @ [c]) [] s)\<close>
| \<open>lex_attrs Quote name val (c # s) = lex_attrs Val name [] s\<close>
| \<open>lex_attrs Val name val (c # s) =
     (if c = CHR 0x22 then (name, val) # lex_attrs Name [] [] s
      else lex_attrs Val name (val @ [c]) s)\<close>

definition lex_tag :: \<open>string \<Rightarrow> html_token\<close> where
  \<open>lex_tag inside =
     (case inside of
        [] \<Rightarrow> Text []
      | c # s \<Rightarrow>
          if c = CHR ''/'' then Close s
          else Open (takeWhile (\<lambda>c. c \<noteq> CHR '' '') inside)
                 (lex_attrs Name [] [] (dropWhile (\<lambda>c. c \<noteq> CHR '' '') inside)))\<close>

fun lex_html :: \<open>bool \<Rightarrow> string \<Rightarrow> string \<Rightarrow> html_token list\<close> where
  \<open>lex_html in_tag seen [] = (if seen = [] \<or> in_tag then [] else [Text seen])\<close>
| \<open>lex_html in_tag seen (c # s) =
     (if in_tag then
        (if c = CHR ''>'' then lex_tag seen # lex_html False [] s else lex_html True (seen @ [c]) s)
      else if c = CHR ''<'' then (if seen = [] then [] else [Text seen]) @ lex_html True [] s
      else lex_html False (seen @ [c]) s)\<close>

definition sample_parse_html :: \<open>string \<Rightarrow> html_token list\<close> where
  \<open>sample_parse_html html = lex_html False [] html\<close>

fun write_token :: \<open>html_token \<Rightarrow> string\<close> where
  \<open>write_token (Text plain) = concat (map (\<lambda>c. if c = CHR ''>'' then ''&gt;'' else [c]) plain)\<close>
| \<open>write_token (Open name attributes) =
     ''<'' @ name @ concat (map (\<lambda>(a, v). '' '' @ a @ ''="'' @ v @
      [CHR 0x22]) attributes) @ ''>''\<close>
| \<open>write_token (Close name) = ''</'' @ name @ ''>''\<close>

definition sample_serialize_html :: \<open>html_token list \<Rightarrow> string\<close> where
  \<open>sample_serialize_html tokens = concat (map write_token tokens)\<close>

text \<open>A small profile, and a table with the one glyph U+1F600.\<close>

definition sample_profile_tags :: \<open>string list\<close> where
  \<open>sample_profile_tags = [''p'', ''span'', ''div'', ''pre'', ''code'', ''button'', ''b'', ''sub'', ''sup'']\<close>

definition sample_profile_attrs :: \<open>string list\<close> where
  \<open>sample_profile_attrs = [''class'', ''id'', ''title'', ''href'']\<close>

definition sample_glyphs :: glyph_table where
  \<open>sample_glyphs = [(grinning_face, ''1f600'')]\<close>

definition modelled_libs :: libs where
  \<open>modelled_libs =
     sample_libs
       \<lparr>DOMPurify_sanitize :=
          sanitizer_model sample_parse_html sample_serialize_html sample_profile_tags sample_profile_attrs,
        twemoji_parse := twemoji_model sample_glyphs\<rparr>\<close>

text \<open>
  A paragraph with two event-handler attributes and an \<^verbatim>\<open>object\<close> element, beside a \<^verbatim>\<open>class\<close>
  and an \<^verbatim>\<open>svg\<close> element with its \<^verbatim>\<open>viewBox\<close>.
\<close>

definition unsafe_paragraph :: string where
  \<open>unsafe_paragraph =
     ''<span onclick="x()" class="a b">Hi</span> <object data="y">there</object>'' @
     ''<svg viewBox="0 0 1 1" onload="z()"></svg>''\<close>

text \<open>
  A page: \<open>online\<close> says whether the diagram runtime can be loaded, and the runtime rejects
  the text \<^verbatim>\<open>not a diagram\<close> among the diagrams of the page.
\<close>

definition sample_page_env :: \<open>bool \<Rightarrow> string list \<Rightarrow> page_env\<close> where
  \<open>sample_page_env online diagrams =
     \<lparr>module_loads = (\<lambda>url. online),
      call_outcome =
        (\<lambda>callee. if callee = ''mermaid.run'' \<and> ''not a diagram'' \<in> set diagrams
                  then Throws (JsError ''Parse error'') else Returns)\<rparr>\<close>

section \<open>Properties\<close>

subsection \<open>The code-block handler\<close>

lemma renderer_code_returns: \<open>\<exists>html. renderer_code L code language = Inr html\<close>
  by (simp add: renderer_code_def Let_def try_catch_def split: sum.splits)

lemma renderer_code_mermaid:
  \<open>renderer_code L code (Some ''mermaid'') =
     Inr (mermaid_container_open @ code @ mermaid_container_close)\<close>
  by (simp add: renderer_code_def or_else_def)

text \<open>
  The two block templates are written out separately in the source. They agree on everything
  but the \<^verbatim>\<open><code>\<close> tag and its content.
\<close>

lemma block_templates_share_shell:
  \<open>fallback_block lang code =
     code_block_open @ lang @ copy_button_header @ ''<pre><code>'' @ code @ code_block_close\<close>
  \<open>code_block lang validLanguage highlightedCode =
     code_block_open @ lang @ copy_button_header @ ''<pre><code class="hljs language-'' @
     validLanguage @ ''">'' @ highlightedCode @ code_block_close\<close>
  by (simp_all add: fallback_block_def code_block_def copy_button_header_def fallback_block_open_def
      code_block_open_def fallback_block_close_def code_block_close_def fallback_block_header_def
      code_block_header_def code_block_class_end_def nl_def)

text \<open>
  C1, as the code has it. When the tag is not the diagram keyword and the registry or the
  highlighter throws, the handler returns normally. The block it returns has the label and
  the copy button of the highlighted block (the same text up to \<^verbatim>\<open><pre>\<close>, the same text after
  \<^verbatim>\<open></code>\<close>), a \<^verbatim>\<open><code>\<close> tag without class, and the code as the handler received it: the
  handler does not escape it.
\<close>

theorem fallback_block_on_highlight_error:
  assumes \<open>or_else language ''plaintext'' \<noteq> ''mermaid''\<close>
    and \<open>highlighted_block L code (or_else language ''plaintext'') = Inl error\<close>
  shows \<open>renderer_code L code language =
           Inr (code_block_open @ or_else language ''plaintext'' @ copy_button_header @
                ''<pre><code>'' @ code @ code_block_close) \<and>
         (\<forall>validLanguage highlightedCode.
            code_block (or_else language ''plaintext'') validLanguage highlightedCode =
              code_block_open @ or_else language ''plaintext'' @ copy_button_header @
              ''<pre><code class="hljs language-'' @ validLanguage @ ''">'' @ highlightedCode @
              code_block_close)\<close>
  using assms
  by (simp add: renderer_code_def Let_def try_catch_def block_templates_share_shell)

theorem fallback_block_on_highlight_error_witness:
  \<open>or_else (Some ''python'') ''plaintext'' \<noteq> ''mermaid'' \<and>
   highlighted_block failing_highlight_libs ''print(1 < 2)'' (or_else (Some ''python'') ''plaintext'') =
     Inl (JsError ''highlight failed'') \<and>
   renderer_code failing_highlight_libs ''print(1 < 2)'' (Some ''python'') =
     Inr (code_block_open @ ''python'' @ copy_button_header @
          ''<pre><code>'' @ ''print(1 < 2)'' @ code_block_close)\<close>
proof -
  have tag: \<open>or_else (Some ''python'') ''plaintext'' \<noteq> ''mermaid''\<close>
    by (simp add: or_else_def)
  have thrown: \<open>highlighted_block failing_highlight_libs ''print(1 < 2)''
      (or_else (Some ''python'') ''plaintext'') = Inl (JsError ''highlight failed'')\<close>
    by (simp add: highlighted_block_def failing_highlight_libs_def sample_libs_def
        sample_getLanguage_def registered_languages_def or_else_def)
  from fallback_block_on_highlight_error [OF tag thrown] tag thrown show ?thesis
    by (simp add: or_else_def)
qed

text \<open>
  C1 as stated asks for the code of the fallback block to be HTML-escaped. With a highlighter
  that throws, the code \<^verbatim>\<open><b>\<close> comes back as \<^verbatim>\<open><b>\<close>, not as \<^verbatim>\<open>&lt;b&gt;\<close>.
\<close>

theorem fallback_not_escaped_counterexample:
  \<open>highlighted_block failing_highlight_libs ''<b>'' ''js'' = Inl (JsError ''highlight failed'') \<and>
   renderer_code failing_highlight_libs ''<b>'' (Some ''js'') = Inr (fallback_block ''js'' ''<b>'') \<and>
   escape_html ''<b>'' = ''&lt;b&gt;'' \<and>
   fallback_block ''js'' ''<b>'' \<noteq> fallback_block ''js'' (escape_html ''<b>'')\<close>
  by (simp add: renderer_code_def Let_def try_catch_def highlighted_block_def failing_highlight_libs_def
      sample_libs_def sample_getLanguage_def or_else_def fallback_block_def escape_html_def)

text \<open>
  C6, as the code has it. For a tag other than the diagram keyword: when the registry knows the
  tag and the highlighter returns, the block carries the tag both as its label and as its
  language class; when the registry does not know the tag, the label is still the tag, the
  language handed to the highlighter and written into the class is \<^verbatim>\<open>plaintext\<close>. A missing or
  empty tag is \<^verbatim>\<open>plaintext\<close> in the label, for the highlighter and in the class. Whatever the
  registry and the highlighter do, the block returned for a tag other than the diagram keyword
  starts with the label holding that tag, and the handler returns normally for every tag.
\<close>

theorem label_is_tag_and_plaintext_path:
  \<open>(tag \<noteq> [] \<and> tag \<noteq> ''mermaid'' \<and> hljs_getLanguage L tag = Inr True \<and>
      hljs_highlight L code tag = Inr highlightedCode \<longrightarrow>
      renderer_code L code (Some tag) = Inr (code_block tag tag highlightedCode)) \<and>
   (tag \<noteq> [] \<and> tag \<noteq> ''mermaid'' \<and> hljs_getLanguage L tag = Inr False \<and>
      hljs_highlight L code ''plaintext'' = Inr plainCode \<longrightarrow>
      renderer_code L code (Some tag) = Inr (code_block tag ''plaintext'' plainCode)) \<and>
   ((language = None \<or> language = Some []) \<and> hljs_getLanguage L ''plaintext'' = Inr known \<and>
      hljs_highlight L code ''plaintext'' = Inr plainCode \<longrightarrow>
      renderer_code L code language = Inr (code_block ''plaintext'' ''plaintext'' plainCode)) \<and>
   (or_else anyLanguage ''plaintext'' \<noteq> ''mermaid'' \<longrightarrow>
      (\<exists>rest. renderer_code L code anyLanguage =
         Inr (code_block_open @ or_else anyLanguage ''plaintext'' @ copy_button_header @ rest))) \<and>
   (\<exists>html. renderer_code L code anyLanguage = Inr html)\<close>
proof -
  have \<open>\<exists>rest. renderer_code L code anyLanguage =
         Inr (code_block_open @ or_else anyLanguage ''plaintext'' @ copy_button_header @ rest)\<close>
    if \<open>or_else anyLanguage ''plaintext'' \<noteq> ''mermaid''\<close>
    using that
    by (auto simp add: renderer_code_def highlighted_block_def try_catch_def Let_def
        block_templates_share_shell split: sum.splits)
  then show ?thesis
    using renderer_code_returns [of L code anyLanguage]
    by (auto simp add: renderer_code_def highlighted_block_def or_else_def try_catch_def Let_def)
qed

theorem label_is_tag_and_plaintext_path_witness:
  \<open>hljs_getLanguage sample_libs ''python'' = Inr True \<and>
   hljs_highlight sample_libs ''1 < 2'' ''python'' = Inr ''1 &lt; 2'' \<and>
   renderer_code sample_libs ''1 < 2'' (Some ''python'') = Inr (code_block ''python'' ''python'' ''1 &lt; 2'') \<and>
   hljs_getLanguage sample_libs ''cobol'' = Inr False \<and>
   hljs_highlight sample_libs ''1 < 2'' ''plaintext'' = Inr ''1 &lt; 2'' \<and>
   renderer_code sample_libs ''1 < 2'' (Some ''cobol'') = Inr (code_block ''cobol'' ''plaintext'' ''1 &lt; 2'') \<and>
   renderer_code sample_libs ''1 < 2'' None = Inr (code_block ''plaintext'' ''plaintext'' ''1 &lt; 2'')\<close>
proof -
  have known: \<open>hljs_getLanguage sample_libs ''python'' = Inr True\<close>
    and unknown: \<open>hljs_getLanguage sample_libs ''cobol'' = Inr False\<close>
    and plain: \<open>hljs_getLanguage sample_libs ''plaintext'' = Inr True\<close>
    by (simp_all add: sample_libs_def sample_getLanguage_def registered_languages_def)
  have hl: \<open>hljs_highlight sample_libs ''1 < 2'' ''python'' = Inr ''1 &lt; 2''\<close>
    \<open>hljs_highlight sample_libs ''1 < 2'' ''plaintext'' = Inr ''1 &lt; 2''\<close>
    by (simp_all add: sample_libs_def sample_highlight_def registered_languages_def escape_html_def)
  from label_is_tag_and_plaintext_path
         [of \<open>''python''\<close> sample_libs \<open>''1 < 2''\<close> \<open>''1 &lt; 2''\<close> \<open>''1 &lt; 2''\<close> None True None]
       label_is_tag_and_plaintext_path
         [of \<open>''cobol''\<close> sample_libs \<open>''1 < 2''\<close> \<open>''1 &lt; 2''\<close> \<open>''1 &lt; 2''\<close> None True None]
       known unknown plain hl
  show ?thesis by simp
qed

text \<open>
  C6 as stated sends every tag the registry does not know to the plaintext path. The diagram
  keyword is such a tag, and the handler answers it with the diagram container before it
  consults the registry.
\<close>

theorem diagram_tag_not_plaintext_counterexample:
  \<open>hljs_getLanguage sample_libs ''mermaid'' = Inr False \<and>
   hljs_highlight sample_libs ''graph TD'' ''plaintext'' = Inr ''graph TD'' \<and>
   renderer_code sample_libs ''graph TD'' (Some ''mermaid'') =
     Inr (mermaid_container_open @ ''graph TD'' @ mermaid_container_close) \<and>
   renderer_code sample_libs ''graph TD'' (Some ''mermaid'') \<noteq>
     Inr (code_block ''mermaid'' ''plaintext'' ''graph TD'')\<close>
  by (simp add: renderer_code_mermaid sample_libs_def sample_getLanguage_def sample_highlight_def
      registered_languages_def escape_html_def code_block_def code_block_open_def
      mermaid_container_open_def nl_def)

subsection \<open>The pipeline\<close>

lemma getHtmlForWebview_state:
  \<open>snd (getHtmlForWebview L st markdownContent isForPdf assetBase) =
     st @ [marked_use markedKatex, marked_setOptions (markedOptions L)]\<close>
  by (simp add: getHtmlForWebview_def Let_def)

lemma getHtmlForWebview_document:
  \<open>getHtmlForWebview L st markdownContent isForPdf assetBase = (Inr doc, st') \<longleftrightarrow>
     st' = st @ [marked_use markedKatex, marked_setOptions (markedOptions L)] \<and>
     (\<exists>htmlContent. body_fragment L st' markdownContent isForPdf = Inr htmlContent \<and>
        doc = document isForPdf (vendor_of assetBase) htmlContent)\<close>
  by (auto simp add: getHtmlForWebview_def Let_def split: sum.splits)

lemma body_fragment_Inr:
  \<open>body_fragment L st markdownContent isForPdf = Inr body \<longleftrightarrow>
     (\<exists>fragment. sanitized_fragment L st markdownContent = Inr fragment \<and>
        (if isForPdf then twemoji_parse L fragment emoji_options = Inr body else body = fragment))\<close>
  by (auto simp add: body_fragment_def split: sum.splits)

lemma sanitized_fragment_Inr:
  \<open>sanitized_fragment L st markdownContent = Inr fragment \<longleftrightarrow>
     (\<exists>html. marked_parse L st markdownContent = Inr html \<and>
        DOMPurify_sanitize L html sanitize_options = Inr fragment)\<close>
  by (auto simp add: sanitized_fragment_def split: sum.splits)

lemma vendor_of_tmp_vendor: \<open>vendor_of (Some ''file:///tmp/vendor/'') = Some ''file:///tmp/vendor''\<close>
  by (simp add: vendor_of_def truthy_def replace_trailing_slash_def)

lemma vendor_of_None: \<open>vendor_of None = None\<close>
  by (simp add: vendor_of_def truthy_def)

lemma replace_trailing_slash_snoc: \<open>replace_trailing_slash (s @ ''/'') = s\<close>
  by (simp add: replace_trailing_slash_def)

lemma document_print_block:
  \<open>document True vendor body =
     shell_before_print_block vendor @ print_media_block @ shell_theme @ body @ shell_tail\<close>
  \<open>document False vendor body =
     shell_before_print_block vendor @ shell_theme @ body @ shell_tail\<close>
  by (simp_all add: document_def shell_before_print_block_def)

text \<open>Runs of the pipeline on the sample libraries.\<close>

lemma sample_paragraph:
  \<open>body_fragment sample_libs (st @ [marked_use markedKatex, marked_setOptions (markedOptions sample_libs)])
     ''Hello'' isForPdf = Inr (''<p>Hello</p>'' @ nl)\<close>
  by (simp add: body_fragment_def sanitized_fragment_def sample_libs_def sample_marked_parse_def
      single_fenced_block_def sample_sanitize_def sample_twemoji_def nl_def)

lemma sample_arrow_diagram:
  \<open>sanitized_fragment sample_libs [marked_use markedKatex, marked_setOptions (markedOptions sample_libs)]
     arrow_diagram =
   Inr (mermaid_container_open @ ''graph TD; A--&gt;B'' @ mermaid_container_close)\<close>
proof -
  have \<open>single_fenced_block arrow_diagram = Some (''mermaid'', ''graph TD; A-->B'')\<close>
    by (simp add: single_fenced_block_def arrow_diagram_def fence_def nl_def)
  then have \<open>marked_parse sample_libs [marked_use markedKatex, marked_setOptions (markedOptions sample_libs)]
      arrow_diagram = Inr (mermaid_container_open @ ''graph TD; A-->B'' @ mermaid_container_close)\<close>
    by (simp add: sample_libs_def sample_marked_parse_def markedOptions_def renderer_code_mermaid)
  then show ?thesis
    by (simp add: sanitized_fragment_def)
      (simp add: sample_libs_def sample_sanitize_def mermaid_container_open_def
        mermaid_container_close_def nl_def)
qed

text \<open>
  C2, as the code has it. For the tag \<^verbatim>\<open>mermaid\<close> the handler returns the text of the block,
  unchanged, inside \<^verbatim>\<open><pre class="mermaid">\<close> inside \<^verbatim>\<open><div class="mermaid-container">\<close>. That is
  the engine's side of the sanitizer: what \<^verbatim>\<open>getHtmlForWebview\<close> puts into the document is
  the sanitizer's answer to the engine's output (rewritten by the emoji library for PDF), so
  the text is in the document as the sanitizer returns it.
\<close>

theorem mermaid_block_verbatim_before_sanitizer:
  \<open>renderer_code L code (Some ''mermaid'') =
     Inr (nl @ ''                <div class="mermaid-container">'' @ nl @
          ''                    <pre class="mermaid">'' @ code @ ''</pre>'' @ nl @
          ''                </div>'' @ nl @ ''            '') \<and>
   (getHtmlForWebview L st markdownContent isForPdf assetBase = (Inr doc, st') \<longrightarrow>
      (\<exists>html fragment body.
         marked_parse L st' markdownContent = Inr html \<and>
         DOMPurify_sanitize L html sanitize_options = Inr fragment \<and>
         (if isForPdf then twemoji_parse L fragment emoji_options = Inr body else body = fragment) \<and>
         doc = document isForPdf (vendor_of assetBase) body))\<close>
  by (auto simp add: renderer_code_mermaid mermaid_container_open_def mermaid_container_close_def
      getHtmlForWebview_document body_fragment_Inr sanitized_fragment_Inr)

theorem mermaid_block_verbatim_before_sanitizer_witness:
  \<open>getHtmlForWebview sample_libs [] arrow_diagram False None =
     (Inr (document False None (mermaid_container_open @ ''graph TD; A--&gt;B'' @ mermaid_container_close)),
      [marked_use markedKatex, marked_setOptions (markedOptions sample_libs)]) \<and>
   (\<exists>html fragment body.
      marked_parse sample_libs [marked_use markedKatex, marked_setOptions (markedOptions sample_libs)]
        arrow_diagram = Inr html \<and>
      DOMPurify_sanitize sample_libs html sanitize_options = Inr fragment \<and>
      (if False then twemoji_parse sample_libs fragment emoji_options = Inr body else body = fragment) \<and>
      document False None (mermaid_container_open @ ''graph TD; A--&gt;B'' @ mermaid_container_close) =
      document False (vendor_of None) body)\<close>
proof -
  have run: \<open>getHtmlForWebview sample_libs [] arrow_diagram False None =
     (Inr (document False None (mermaid_container_open @ ''graph TD; A--&gt;B'' @ mermaid_container_close)),
      [marked_use markedKatex, marked_setOptions (markedOptions sample_libs)])\<close>
    using sample_arrow_diagram
    by (simp add: getHtmlForWebview_def body_fragment_def vendor_of_None)
  from mp [OF conjunct2 [OF mermaid_block_verbatim_before_sanitizer
        [of sample_libs \<open>[]\<close> \<open>[]\<close> arrow_diagram False None
            \<open>document False None (mermaid_container_open @ ''graph TD; A--&gt;B'' @ mermaid_container_close)\<close>
            \<open>[marked_use markedKatex, marked_setOptions (markedOptions sample_libs)]\<close>]] run]
       run
  show ?thesis by (intro conjI)
qed

text \<open>
  C2 as stated has the text of the diagram block unchanged in the sanitized output. A
  sanitizer that parses the markup and writes it out again writes the \<^verbatim>\<open>>\<close> of \<^verbatim>\<open>A-->B\<close> as
  \<^verbatim>\<open>&gt;\<close>: on the sample libraries the text \<^verbatim>\<open>graph TD; A-->B\<close> is not in the fragment.
\<close>

theorem diagram_text_reserialized_counterexample:
  \<open>fst (getHtmlForWebview sample_libs [] arrow_diagram False None) =
     Inr (document False None (mermaid_container_open @ ''graph TD; A--&gt;B'' @ mermaid_container_close)) \<and>
   sanitized_fragment sample_libs (snd (getHtmlForWebview sample_libs [] arrow_diagram False None))
     arrow_diagram =
     Inr (mermaid_container_open @ ''graph TD; A--&gt;B'' @ mermaid_container_close) \<and>
   \<not> occurs_in ''graph TD; A-->B''
       (mermaid_container_open @ ''graph TD; A--&gt;B'' @ mermaid_container_close)\<close>
proof -
  have \<open>\<not> occurs_in ''graph TD; A-->B''
       (mermaid_container_open @ ''graph TD; A--&gt;B'' @ mermaid_container_close)\<close>
    by (simp add: mermaid_container_open_def mermaid_container_close_def nl_def)
  then show ?thesis
    using sample_arrow_diagram
    by (simp add: getHtmlForWebview_def body_fragment_def vendor_of_None)
qed

lemma after_calls_state:
  \<open>after_calls L st calls =
     st @ concat (replicate (length calls) [marked_use markedKatex, marked_setOptions (markedOptions L)])\<close>
proof (induction calls arbitrary: st)
  case Nil
  then show ?case by simp
next
  case (Cons call calls)
  obtain markdownContent isForPdf assetBase where call: \<open>call = (markdownContent, isForPdf, assetBase)\<close>
    by (cases call) auto
  show ?case
    by (simp add: call Cons.IH getHtmlForWebview_state)
qed

lemma body_fragment_cong:
  \<open>marked_parse L st markdownContent = marked_parse L st' markdownContent \<Longrightarrow>
   body_fragment L st markdownContent isForPdf = body_fragment L st' markdownContent isForPdf\<close>
  by (simp add: body_fragment_def sanitized_fragment_def)

text \<open>
  Configuring the engine once more with the configuration it has just received: if that never
  changes what \<^verbatim>\<open>marked.parse\<close> returns, any number of such configurations changes nothing.
\<close>

lemma parse_after_repeated_configuration:
  assumes \<open>\<forall>st markdownContent.
      marked_parse L (st @ [marked_use markedKatex, marked_setOptions (markedOptions L)] @
                        [marked_use markedKatex, marked_setOptions (markedOptions L)]) markdownContent =
      marked_parse L (st @ [marked_use markedKatex, marked_setOptions (markedOptions L)]) markdownContent\<close>
  shows \<open>marked_parse L
           (st @ concat (replicate n [marked_use markedKatex, marked_setOptions (markedOptions L)]) @
              [marked_use markedKatex, marked_setOptions (markedOptions L)]) markdownContent =
         marked_parse L (st @ [marked_use markedKatex, marked_setOptions (markedOptions L)]) markdownContent\<close>
proof (induction n arbitrary: st)
  case 0
  then show ?case by simp
next
  case (Suc n)
  from Suc [of \<open>st @ [marked_use markedKatex, marked_setOptions (markedOptions L)]\<close>] assms
  show ?case by simp
qed

text \<open>
  C3. For given arguments \<^verbatim>\<open>getHtmlForWebview\<close> returns the same HTML, or throws the same
  error, whatever calls were made before it, how many and with which arguments, and from
  whatever state the shared \<^verbatim>\<open>marked\<close> object started. The one thing a call leaves behind is
  that object configured once more with the same extension and the same options; the
  hypothesis is the engine's part, that receiving this configuration a second time in a row
  does not change what \<^verbatim>\<open>marked.parse\<close> returns.
\<close>

theorem result_independent_of_prior_calls:
  assumes \<open>\<forall>st markdownContent.
      marked_parse L (st @ [marked_use markedKatex, marked_setOptions (markedOptions L)] @
                        [marked_use markedKatex, marked_setOptions (markedOptions L)]) markdownContent =
      marked_parse L (st @ [marked_use markedKatex, marked_setOptions (markedOptions L)]) markdownContent\<close>
  shows \<open>fst (getHtmlForWebview L (after_calls L st calls) markdownContent isForPdf assetBase) =
           fst (getHtmlForWebview L st markdownContent isForPdf assetBase) \<and>
         fst (getHtmlForWebview L (after_calls L st calls) markdownContent isForPdf assetBase) =
           fst (getHtmlForWebview L (after_calls L st calls') markdownContent isForPdf assetBase)\<close>
proof -
  have \<open>fst (getHtmlForWebview L (after_calls L st prior) markdownContent isForPdf assetBase) =
        fst (getHtmlForWebview L st markdownContent isForPdf assetBase)\<close> for prior
    using body_fragment_cong
            [OF parse_after_repeated_configuration [OF assms, of st \<open>length prior\<close> markdownContent],
             of isForPdf]
    by (simp add: getHtmlForWebview_def after_calls_state Let_def)
  then show ?thesis by simp
qed

lemma current_renderer_configured:
  \<open>current_renderer (st @ [marked_use extension, marked_setOptions opts]) = Some (renderer opts)\<close>
  by (induction st rule: current_renderer.induct) simp_all

theorem result_independent_of_prior_calls_witness:
  \<open>(\<forall>st markdownContent.
      marked_parse sample_libs
        (st @ [marked_use markedKatex, marked_setOptions (markedOptions sample_libs)] @
           [marked_use markedKatex, marked_setOptions (markedOptions sample_libs)]) markdownContent =
      marked_parse sample_libs
        (st @ [marked_use markedKatex, marked_setOptions (markedOptions sample_libs)]) markdownContent) \<and>
   fst (getHtmlForWebview sample_libs
          (after_calls sample_libs [] [(''# A'', True, None), (''B'', False, Some ''x/'')])
          ''Hello'' False None) =
   fst (getHtmlForWebview sample_libs [] ''Hello'' False None) \<and>
   fst (getHtmlForWebview sample_libs [] ''Hello'' False None) =
     Inr (document False None (''<p>Hello</p>'' @ nl))\<close>
proof -
  have insensitive: \<open>\<forall>st markdownContent.
      marked_parse sample_libs
        (st @ [marked_use markedKatex, marked_setOptions (markedOptions sample_libs)] @
           [marked_use markedKatex, marked_setOptions (markedOptions sample_libs)]) markdownContent =
      marked_parse sample_libs
        (st @ [marked_use markedKatex, marked_setOptions (markedOptions sample_libs)]) markdownContent\<close>
    using current_renderer_configured
      [of \<open>st @ [marked_use markedKatex, marked_setOptions (markedOptions sample_libs)]\<close> for st]
      current_renderer_configured
    by (simp add: sample_libs_def sample_marked_parse_def)
  have run: \<open>fst (getHtmlForWebview sample_libs [] ''Hello'' False None) =
     Inr (document False None (''<p>Hello</p>'' @ nl))\<close>
    using sample_paragraph [of \<open>[]\<close> False]
    by (simp add: getHtmlForWebview_def vendor_of_None)
  from conjunct1 [OF result_independent_of_prior_calls [OF insensitive,
        of \<open>[]\<close> \<open>[(''# A'', True, None), (''B'', False, Some ''x/'')]\<close> \<open>''Hello''\<close> False None \<open>[]\<close>]]
       insensitive run
  show ?thesis by (intro conjI)
qed

subsection \<open>The assembled document\<close>

text \<open>
  C4. With the asset base \<^verbatim>\<open>file:///tmp/vendor/\<close> the two stylesheet links of the document are
  \<^verbatim>\<open>file:///tmp/vendor/highlight/styles/github-dark.min.css\<close> and
  \<^verbatim>\<open>file:///tmp/vendor/katex/katex.min.css\<close>, and the highlighter script is loaded from
  \<^verbatim>\<open>file:///tmp/vendor/highlight/highlight.min.js\<close>; without an asset base each of the three
  is its fixed remote address.
\<close>

theorem asset_links_for_base_and_fallback:
  \<open>(getHtmlForWebview L st markdownContent isForPdf (Some ''file:///tmp/vendor/'') = (Inr doc, st') \<longrightarrow>
      (\<exists>htmlContent.
         doc = shell_head @ ''file:///tmp/vendor/highlight/styles/github-dark.min.css'' @
               shell_second_link @ ''file:///tmp/vendor/katex/katex.min.css'' @
               shell_after_links @ mermaid_bootstrap @
               shell_highlight_script @ ''file:///tmp/vendor/highlight/highlight.min.js'' @
               shell_scripts @ (if isForPdf then print_media_block else []) @
               shell_theme @ htmlContent @ shell_tail)) \<and>
   (getHtmlForWebview L st markdownContent isForPdf None = (Inr doc, st') \<longrightarrow>
      (\<exists>htmlContent.
         doc = shell_head @
               ''https://cdnjs.cloudflare.com/ajax/libs/highlight.js/11.8.0/styles/github-dark.min.css'' @
               shell_second_link @ ''https://cdn.jsdelivr.net/npm/katex@0.16.9/dist/katex.min. css'' @
               shell_after_links @ mermaid_bootstrap @
               shell_highlight_script @
               ''https://cdnjs.cloudflare.com/ajax/libs/highlight.js/11.8.0/highlight.min.js'' @
               shell_scripts @ (if isForPdf then print_media_block else []) @
               shell_theme @ htmlContent @ shell_tail))\<close>
  by (auto simp add: getHtmlForWebview_document vendor_of_tmp_vendor vendor_of_None document_def
      highlight_css_url_def katex_css_url_def highlight_js_url_def asset_url_def)

theorem asset_links_for_base_and_fallback_witness:
  \<open>getHtmlForWebview sample_libs [] ''Hello'' False (Some ''file:///tmp/vendor/'') =
     (Inr (document False (Some ''file:///tmp/vendor'') (''<p>Hello</p>'' @ nl)),
      [marked_use markedKatex, marked_setOptions (markedOptions sample_libs)]) \<and>
   getHtmlForWebview sample_libs [] ''Hello'' False None =
     (Inr (document False None (''<p>Hello</p>'' @ nl)),
      [marked_use markedKatex, marked_setOptions (markedOptions sample_libs)]) \<and>
   (\<exists>htmlContent.
      document False (Some ''file:///tmp/vendor'') (''<p>Hello</p>'' @ nl) =
        shell_head @ ''file:///tmp/vendor/highlight/styles/github-dark.min.css'' @
        shell_second_link @ ''file:///tmp/vendor/katex/katex.min.css'' @
        shell_after_links @ mermaid_bootstrap @
        shell_highlight_script @ ''file:///tmp/vendor/highlight/highlight.min.js'' @
        shell_scripts @ shell_theme @ htmlContent @ shell_tail) \<and>
   (\<exists>htmlContent.
      document False None (''<p>Hello</p>'' @ nl) =
        shell_head @
        ''https://cdnjs.cloudflare.com/ajax/libs/highlight.js/11.8.0/styles/github-dark.min.css'' @
        shell_second_link @ ''https://cdn.jsdelivr.net/npm/katex@0.16.9/dist/katex.min. css'' @
        shell_after_links @ mermaid_bootstrap @
        shell_highlight_script @
        ''https://cdnjs.cloudflare.com/ajax/libs/highlight.js/11.8.0/highlight.min.js'' @
        shell_scripts @ shell_theme @ htmlContent @ shell_tail)\<close>
proof -
  have base: \<open>getHtmlForWebview sample_libs [] ''Hello'' False (Some ''file:///tmp/vendor/'') =
     (Inr (document False (Some ''file:///tmp/vendor'') (''<p>Hello</p>'' @ nl)),
      [marked_use markedKatex, marked_setOptions (markedOptions sample_libs)])\<close>
    using sample_paragraph [of \<open>[]\<close> False]
    by (simp add: getHtmlForWebview_def vendor_of_tmp_vendor)
  have absent: \<open>getHtmlForWebview sample_libs [] ''Hello'' False None =
     (Inr (document False None (''<p>Hello</p>'' @ nl)),
      [marked_use markedKatex, marked_setOptions (markedOptions sample_libs)])\<close>
    using sample_paragraph [of \<open>[]\<close> False]
    by (simp add: getHtmlForWebview_def vendor_of_None)
  from asset_links_for_base_and_fallback
         [of sample_libs \<open>[]\<close> \<open>''Hello''\<close> False
             \<open>document False (Some ''file:///tmp/vendor'') (''<p>Hello</p>'' @ nl)\<close>
             \<open>[marked_use markedKatex, marked_setOptions (markedOptions sample_libs)]\<close>]
       asset_links_for_base_and_fallback
         [of sample_libs \<open>[]\<close> \<open>''Hello''\<close> False
             \<open>document False None (''<p>Hello</p>'' @ nl)\<close>
             \<open>[marked_use markedKatex, marked_setOptions (markedOptions sample_libs)]\<close>]
       base absent
  show ?thesis by simp
qed

text \<open>
  C10. An asset base that ends in two slashes loses the last one only: the vendor prefix still
  ends in a slash, and each of the three asset addresses has a double slash between the base
  and the asset path.
\<close>

theorem one_trailing_slash_stripped:
  assumes \<open>assetBase = prefix @ ''//''\<close>
  shows \<open>vendor_of (Some assetBase) = Some (prefix @ ''/'') \<and>
         (getHtmlForWebview L st markdownContent isForPdf (Some assetBase) = (Inr doc, st') \<longrightarrow>
            (\<exists>htmlContent.
               doc = shell_head @ prefix @ ''//highlight/styles/github-dark.min.css'' @
                     shell_second_link @ prefix @ ''//katex/katex.min.css'' @
                     shell_after_links @ mermaid_bootstrap @
                     shell_highlight_script @ prefix @ ''//highlight/highlight.min.js'' @
                     shell_scripts @ (if isForPdf then print_media_block else []) @
                     shell_theme @ htmlContent @ shell_tail))\<close>
proof -
  have \<open>replace_trailing_slash assetBase = prefix @ ''/''\<close>
    using replace_trailing_slash_snoc [of \<open>prefix @ ''/''\<close>] by (simp add: assms)
  then have vendor: \<open>vendor_of (Some assetBase) = Some (prefix @ ''/'')\<close>
    by (simp add: vendor_of_def truthy_def assms)
  show ?thesis
    by (auto simp add: vendor getHtmlForWebview_document document_def highlight_css_url_def
        katex_css_url_def highlight_js_url_def asset_url_def)
qed

theorem one_trailing_slash_stripped_witness:
  \<open>''file:///tmp/vendor//'' = ''file:///tmp/vendor'' @ ''//'' \<and>
   vendor_of (Some ''file:///tmp/vendor//'') = Some ''file:///tmp/vendor/'' \<and>
   getHtmlForWebview sample_libs [] ''Hello'' False (Some ''file:///tmp/vendor//'') =
     (Inr (document False (Some ''file:///tmp/vendor/'') (''<p>Hello</p>'' @ nl)),
      [marked_use markedKatex, marked_setOptions (markedOptions sample_libs)]) \<and>
   (\<exists>htmlContent.
      document False (Some ''file:///tmp/vendor/'') (''<p>Hello</p>'' @ nl) =
        shell_head @ ''file:///tmp/vendor//highlight/styles/github-dark.min.css'' @
        shell_second_link @ ''file:///tmp/vendor//katex/katex.min.css'' @
        shell_after_links @ mermaid_bootstrap @
        shell_highlight_script @ ''file:///tmp/vendor//highlight/highlight.min.js'' @
        shell_scripts @ shell_theme @ htmlContent @ shell_tail)\<close>
proof -
  have split: \<open>''file:///tmp/vendor//'' = ''file:///tmp/vendor'' @ ''//''\<close>
    by simp
  note stripped = one_trailing_slash_stripped
         [OF split, of sample_libs \<open>[]\<close> \<open>''Hello''\<close> False
             \<open>document False (Some ''file:///tmp/vendor/'') (''<p>Hello</p>'' @ nl)\<close>
             \<open>[marked_use markedKatex, marked_setOptions (markedOptions sample_libs)]\<close>]
  from stripped have vendor: \<open>vendor_of (Some ''file:///tmp/vendor//'') = Some ''file:///tmp/vendor/''\<close>
    by simp
  have run: \<open>getHtmlForWebview sample_libs [] ''Hello'' False (Some ''file:///tmp/vendor//'') =
     (Inr (document False (Some ''file:///tmp/vendor/'') (''<p>Hello</p>'' @ nl)),
      [marked_use markedKatex, marked_setOptions (markedOptions sample_libs)])\<close>
    using sample_paragraph [of \<open>[]\<close> False]
    by (simp add: getHtmlForWebview_def vendor)
  from mp [OF conjunct2 [OF stripped] run]
  have links: \<open>\<exists>htmlContent.
      document False (Some ''file:///tmp/vendor/'') (''<p>Hello</p>'' @ nl) =
        shell_head @ ''file:///tmp/vendor//highlight/styles/github-dark.min.css'' @
        shell_second_link @ ''file:///tmp/vendor//katex/katex.min.css'' @
        shell_after_links @ mermaid_bootstrap @
        shell_highlight_script @ ''file:///tmp/vendor//highlight/highlight.min.js'' @
        shell_scripts @ shell_theme @ htmlContent @ shell_tail\<close>
    by simp
  from split vendor run links show ?thesis
    by (intro conjI)
qed

subsection \<open>The emoji postprocessor\<close>

text \<open>A call that returns a document has sanitized a fragment and built the document from it.\<close>

lemma run_document:
  assumes \<open>fst (getHtmlForWebview L st markdownContent isForPdf assetBase) = Inr doc\<close>
  shows \<open>\<exists>fragment.
      sanitized_fragment L (st @ [marked_use markedKatex, marked_setOptions (markedOptions L)])
        markdownContent = Inr fragment \<and>
      (if isForPdf
       then \<exists>body. twemoji_parse L fragment emoji_options = Inr body \<and>
              doc = document True (vendor_of assetBase) body
       else doc = document False (vendor_of assetBase) fragment)\<close>
proof -
  obtain st' where \<open>getHtmlForWebview L st markdownContent isForPdf assetBase = (Inr doc, st')\<close>
    using assms by (cases \<open>getHtmlForWebview L st markdownContent isForPdf assetBase\<close>) simp
  then obtain body where
    body: \<open>body_fragment L (st @ [marked_use markedKatex, marked_setOptions (markedOptions L)])
             markdownContent isForPdf = Inr body\<close>
    and doc: \<open>doc = document isForPdf (vendor_of assetBase) body\<close>
    unfolding getHtmlForWebview_document by blast
  from body obtain fragment where
    \<open>sanitized_fragment L (st @ [marked_use markedKatex, marked_setOptions (markedOptions L)])
       markdownContent = Inr fragment\<close>
    \<open>if isForPdf then twemoji_parse L fragment emoji_options = Inr body else body = fragment\<close>
    unfolding body_fragment_Inr by blast
  with doc show ?thesis
    by (cases isForPdf) auto
qed

text \<open>
  The scan of the modelled postprocessor: it leaves a text without glyphs as it is, and on
  any text it returns the pieces of the text with every glyph replaced by its image
  reference. Every text has such pieces, and the result is never shorter than the text.
\<close>

lemma rewrite_glyph_free: \<open>glyph_free table s \<Longrightarrow> rewrite_glyphs table opts 0 s = s\<close>
  by (induction s) auto

lemma rewrite_skip: \<open>rewrite_glyphs table opts (length skipped) (skipped @ s) = rewrite_glyphs table opts 0 s\<close>
  by (induction skipped) auto

lemma rewrite_plain:
  \<open>no_glyph_starts table plain rest \<Longrightarrow>
   rewrite_glyphs table opts 0 (plain @ rest) = plain @ rewrite_glyphs table opts 0 rest\<close>
  by (induction plain) auto

lemma glyph_at_Some:
  assumes \<open>glyph_at table s = Some (glyph, icon)\<close>
  shows \<open>glyph \<noteq> [] \<and> take (length glyph) s = glyph\<close>
  using assms by (auto simp add: glyph_at_def find_Some_iff)

lemma rewrite_glyph:
  assumes \<open>glyph_at table (glyph @ rest) = Some (glyph, icon)\<close>
  shows \<open>rewrite_glyphs table opts 0 (glyph @ rest) =
         image_reference opts glyph icon @ rewrite_glyphs table opts 0 rest\<close>
proof -
  from glyph_at_Some [OF assms] obtain c tail where glyph: \<open>glyph = c # tail\<close>
    by (cases glyph) auto
  with assms show ?thesis
    using rewrite_skip [of table opts tail rest] by simp
qed

lemma rewrite_scanned:
  \<open>scanned table pieces \<Longrightarrow> rewrite_glyphs table opts 0 (source pieces) = rewritten opts pieces\<close>
  by (induction pieces rule: source.induct) (simp_all add: rewrite_plain rewrite_glyph)

lemma scanned_exists: \<open>\<exists>pieces. scanned table pieces \<and> source pieces = s\<close>
proof (induction \<open>length s\<close> arbitrary: s rule: less_induct)
  case less
  show ?case
  proof (cases s)
    case Nil
    then show ?thesis
      by (intro exI [of _ \<open>[]\<close>]) simp
  next
    case (Cons c tail)
    show ?thesis
    proof (cases \<open>glyph_at table s\<close>)
      case None
      from less [of tail] Cons obtain pieces where \<open>scanned table pieces\<close> \<open>source pieces = tail\<close>
        by auto
      with None Cons show ?thesis
        by (intro exI [of _ \<open>Plain [c] # pieces\<close>]) simp
    next
      case (Some found)
      obtain glyph icon where found: \<open>found = (glyph, icon)\<close>
        by (cases found)
      from glyph_at_Some [OF Some [unfolded found]]
      have glyph: \<open>glyph \<noteq> []\<close> \<open>take (length glyph) s = glyph\<close>
        by simp_all
      then have s: \<open>s = glyph @ drop (length glyph) s\<close>
        by (metis append_take_drop_id)
      from glyph Cons have \<open>length (drop (length glyph) s) < length s\<close>
        by (cases glyph) auto
      from less [OF this] obtain pieces where pieces: \<open>scanned table pieces\<close>
        \<open>source pieces = drop (length glyph) s\<close>
        by auto
      with Some found s show ?thesis
        by (intro exI [of _ \<open>Glyph glyph icon # pieces\<close>]) simp
    qed
  qed
qed

lemma rewrite_length: \<open>length s \<le> length (rewrite_glyphs table opts skip s) + skip\<close>
proof (induction table opts skip s rule: rewrite_glyphs.induct)
  case (1 table opts skip)
  then show ?case by simp
next
  case (2 table opts skip c s)
  then show ?case by simp
next
  case (3 table opts c s)
  show ?case
  proof (cases \<open>glyph_at table (c # s)\<close>)
    case None
    with 3 show ?thesis by simp
  next
    case (Some found)
    obtain glyph icon where found: \<open>found = (glyph, icon)\<close>
      by (cases found)
    from glyph_at_Some [OF Some [unfolded found]] have \<open>glyph \<noteq> []\<close>
      by simp
    moreover from 3(2) [OF Some [unfolded found] refl]
    have \<open>length s \<le> length (rewrite_glyphs table opts (length glyph - 1) s) + (length glyph - 1)\<close> .
    ultimately show ?thesis
      using Some found by (simp add: image_reference_def)
  qed
qed

text \<open>Runs of the pipeline on the libraries with the modelled sanitizer and postprocessor.\<close>

lemma modelled_twemoji:
  \<open>\<forall>s opts. twemoji_parse modelled_libs s opts = twemoji_model sample_glyphs s opts\<close>
  by (simp add: modelled_libs_def)

lemma modelled_sanitizer:
  \<open>\<forall>html config. DOMPurify_sanitize modelled_libs html config =
     sanitizer_model sample_parse_html sample_serialize_html sample_profile_tags sample_profile_attrs
       html config\<close>
  by (simp add: modelled_libs_def)

lemma modelled_parse_paragraph:
  \<open>single_fenced_block markdownContent = None \<Longrightarrow>
   marked_parse modelled_libs st markdownContent = Inr (''<p>'' @ markdownContent @ ''</p>'' @ nl)\<close>
  by (simp add: modelled_libs_def sample_libs_def sample_marked_parse_def)

lemma modelled_emoji_fragment:
  \<open>sanitized_fragment modelled_libs st (''Hi '' @ grinning_face) =
     Inr (''<p>Hi '' @ grinning_face @ ''</p>'' @ nl)\<close>
proof -
  have \<open>single_fenced_block (''Hi '' @ grinning_face) = None\<close>
    by (simp add: single_fenced_block_def grinning_face_def fence_def)
  from modelled_parse_paragraph [OF this, of st] show ?thesis
    by (simp add: sanitized_fragment_def modelled_sanitizer sanitizer_model_def)
      (simp add: sample_parse_html_def sample_serialize_html_def sanitize_tokens_def
        lex_tag_def allowed_tags_def allowed_attrs_def sanitize_options_def sample_profile_tags_def
        grinning_face_def nl_def)
qed

lemma modelled_emoji_pieces:
  \<open>scanned sample_glyphs [Plain ''<p>Hi '', Glyph grinning_face ''1f600'', Plain (''</p>'' @ nl)]\<close>
  \<open>source [Plain ''<p>Hi '', Glyph grinning_face ''1f600'', Plain (''</p>'' @ nl)] =
     ''<p>Hi '' @ grinning_face @ ''</p>'' @ nl\<close>
  \<open>rewritten emoji_options [Plain ''<p>Hi '', Glyph grinning_face ''1f600'', Plain (''</p>'' @ nl)] =
     ''<p>Hi <img class="emoji" draggable="false" alt="'' @ grinning_face @
          ''" src="https://cdnjs.cloudflare.com/ajax/libs/twemoji/14.0.2/svg/1f600.svg"/></p>'' @ nl\<close>
  by (simp_all add: sample_glyphs_def glyph_at_def grinning_face_def nl_def image_reference_def
      emoji_options_def)

lemma modelled_emoji_rewrite:
  \<open>rewrite_glyphs sample_glyphs emoji_options 0 (''<p>Hi '' @ grinning_face @ ''</p>'' @ nl) =
     ''<p>Hi <img class="emoji" draggable="false" alt="'' @ grinning_face @
          ''" src="https://cdnjs.cloudflare.com/ajax/libs/twemoji/14.0.2/svg/1f600.svg"/></p>'' @ nl\<close>
  using rewrite_scanned [OF modelled_emoji_pieces(1), of emoji_options]
  by (simp only: modelled_emoji_pieces)

lemma modelled_hello_fragment:
  \<open>sanitized_fragment modelled_libs st ''Hello'' = Inr (''<p>Hello</p>'' @ nl)\<close>
proof -
  have \<open>single_fenced_block ''Hello'' = None\<close>
    by (simp add: single_fenced_block_def)
  from modelled_parse_paragraph [OF this, of st] show ?thesis
    by (simp add: sanitized_fragment_def modelled_sanitizer sanitizer_model_def)
      (simp add: sample_parse_html_def sample_serialize_html_def sanitize_tokens_def
        lex_tag_def allowed_tags_def allowed_attrs_def sanitize_options_def sample_profile_tags_def
        nl_def)
qed

lemma modelled_hello_glyph_free: \<open>glyph_free sample_glyphs (''<p>Hello</p>'' @ nl)\<close>
  by (simp add: sample_glyphs_def glyph_at_def grinning_face_def nl_def)

text \<open>
  C5. With an emoji library that does what the specification says of the postprocessor, for
  any table of glyphs: a call that returns a document has cut the sanitized fragment into
  its glyphs and the text between them, and the body of the document is, when the document
  is for PDF, these pieces with every glyph replaced by its image reference, whose address is
  the fixed remote base, the folder \<^verbatim>\<open>svg\<close>, the image's name and the extension \<^verbatim>\<open>.svg\<close>; when
  the document is not for PDF the body is the fragment itself, glyphs included. A fragment
  without glyphs is the body unchanged in either mode.
\<close>

theorem emoji_glyphs_replaced_only_for_pdf:
  assumes library: \<open>\<forall>s opts. twemoji_parse L s opts = twemoji_model table s opts\<close>
    and run: \<open>fst (getHtmlForWebview L st markdownContent isForPdf assetBase) = Inr doc\<close>
  shows \<open>\<exists>fragment pieces.
      sanitized_fragment L (st @ [marked_use markedKatex, marked_setOptions (markedOptions L)])
        markdownContent = Inr fragment \<and>
      scanned table pieces \<and> source pieces = fragment \<and>
      doc = document isForPdf (vendor_of assetBase)
              (if isForPdf
               then rewritten
                      \<lparr>folder = ''svg'', ext = ''.svg'',
                       base = ''https://cdnjs.cloudflare.com/ajax/libs/twemoji/14.0.2/''\<rparr> pieces
               else fragment) \<and>
      (glyph_free table fragment \<longrightarrow> doc = document isForPdf (vendor_of assetBase) fragment)\<close>
proof -
  from run_document [OF run] obtain fragment where
    fragment: \<open>sanitized_fragment L (st @ [marked_use markedKatex, marked_setOptions (markedOptions L)])
        markdownContent = Inr fragment\<close>
    and doc: \<open>if isForPdf
       then \<exists>body. twemoji_parse L fragment emoji_options = Inr body \<and>
              doc = document True (vendor_of assetBase) body
       else doc = document False (vendor_of assetBase) fragment\<close>
    by blast
  from scanned_exists obtain pieces where
    pieces: \<open>scanned table pieces\<close> \<open>source pieces = fragment\<close>
    by blast
  have rewritten: \<open>rewrite_glyphs table emoji_options 0 fragment = rewritten emoji_options pieces\<close>
    using rewrite_scanned [OF pieces(1)] pieces(2) by simp
  have \<open>doc = document isForPdf (vendor_of assetBase)
           (if isForPdf then rewritten emoji_options pieces else fragment)\<close>
    using doc library rewritten by (cases isForPdf) (auto simp add: twemoji_model_def)
  moreover have \<open>doc = document isForPdf (vendor_of assetBase) fragment\<close> if \<open>glyph_free table fragment\<close>
    using doc library rewrite_glyph_free [OF that] by (cases isForPdf) (auto simp add: twemoji_model_def)
  ultimately show ?thesis
    using fragment pieces unfolding emoji_options_def by blast
qed

theorem emoji_glyphs_replaced_only_for_pdf_witness:
  \<open>(\<forall>s opts. twemoji_parse modelled_libs s opts = twemoji_model sample_glyphs s opts) \<and>
   fst (getHtmlForWebview modelled_libs [] (''Hi '' @ grinning_face) True None) =
     Inr (document True None (''<p>Hi <img class="emoji" draggable="false" alt="'' @ grinning_face @
          ''" src="https://cdnjs.cloudflare.com/ajax/libs/twemoji/14.0.2/svg/1f600.svg"/></p>'' @ nl)) \<and>
   fst (getHtmlForWebview modelled_libs [] (''Hi '' @ grinning_face) False None) =
     Inr (document False None (''<p>Hi '' @ grinning_face @ ''</p>'' @ nl)) \<and>
   (\<exists>pieces. scanned sample_glyphs pieces \<and>
      source pieces = ''<p>Hi '' @ grinning_face @ ''</p>'' @ nl \<and>
      document True None (''<p>Hi <img class="emoji" draggable="false" alt="'' @ grinning_face @
          ''" src="https://cdnjs.cloudflare.com/ajax/libs/twemoji/14.0.2/svg/1f600.svg"/></p>'' @ nl) =
        document True None
          (rewritten
             \<lparr>folder = ''svg'', ext = ''.svg'',
              base = ''https://cdnjs.cloudflare.com/ajax/libs/twemoji/14.0.2/''\<rparr> pieces))\<close>
proof -
  have pdf: \<open>fst (getHtmlForWebview modelled_libs [] (''Hi '' @ grinning_face) True None) =
     Inr (document True None (''<p>Hi <img class="emoji" draggable="false" alt="'' @ grinning_face @
          ''" src="https://cdnjs.cloudflare.com/ajax/libs/twemoji/14.0.2/svg/1f600.svg"/></p>'' @ nl))\<close>
    using modelled_emoji_fragment [of \<open>[marked_use markedKatex, marked_setOptions (markedOptions modelled_libs)]\<close>] modelled_emoji_rewrite
    by (simp add: getHtmlForWebview_def body_fragment_def vendor_of_None modelled_twemoji
        twemoji_model_def)
  have preview: \<open>fst (getHtmlForWebview modelled_libs [] (''Hi '' @ grinning_face) False None) =
     Inr (document False None (''<p>Hi '' @ grinning_face @ ''</p>'' @ nl))\<close>
    using modelled_emoji_fragment [of \<open>[marked_use markedKatex, marked_setOptions (markedOptions modelled_libs)]\<close>]
    by (simp add: getHtmlForWebview_def body_fragment_def vendor_of_None)
  from emoji_glyphs_replaced_only_for_pdf [OF modelled_twemoji pdf]
  have \<open>\<exists>pieces. scanned sample_glyphs pieces \<and>
      source pieces = ''<p>Hi '' @ grinning_face @ ''</p>'' @ nl \<and>
      document True None (''<p>Hi <img class="emoji" draggable="false" alt="'' @ grinning_face @
          ''" src="https://cdnjs.cloudflare.com/ajax/libs/twemoji/14.0.2/svg/1f600.svg"/></p>'' @ nl) =
        document True None
          (rewritten
             \<lparr>folder = ''svg'', ext = ''.svg'',
              base = ''https://cdnjs.cloudflare.com/ajax/libs/twemoji/14.0.2/''\<rparr> pieces)\<close>
    using modelled_emoji_fragment [of \<open>[marked_use markedKatex, marked_setOptions (markedOptions modelled_libs)]\<close>]
    by (auto simp add: vendor_of_None)
  with modelled_twemoji pdf preview show ?thesis
    by (intro conjI)
qed

subsection \<open>The print-media block\<close>

text \<open>The block of the template is the text of its three rules.\<close>

lemma print_media_block_rules: \<open>print_media_block = media_print_text print_media_rules\<close>
  by (simp add: print_media_block_def media_print_text_def print_media_rules_def spaces_def nl_def
      numeral_eq_Suc)

lemma print_media_block_length: \<open>0 < length print_media_block\<close>
  by (simp add: print_media_block_rules media_print_text_def)

text \<open>
  C7, as the code has it. From the same state of the engine, the document for PDF and the one
  that is not are the same template up to the style sheet; there the first has the
  print-media block and the second has nothing, and the first is the longer one. The block
  is three rules: \<^verbatim>\<open>page-break-before: auto\<close> for \<^verbatim>\<open>h1\<close>, \<^verbatim>\<open>h2\<close>, \<^verbatim>\<open>h3\<close>; one rule
  \<^verbatim>\<open>page-break-inside: avoid\<close> whose selectors are \<^verbatim>\<open>pre\<close>, \<^verbatim>\<open>. code-block\<close>, \<^verbatim>\<open>figure\<close>,
  \<^verbatim>\<open>table\<close> and \<^verbatim>\<open>. mermaid-container\<close>, as the template writes them; and
  \<^verbatim>\<open>page-break-after: auto\<close> for \<^verbatim>\<open>hr\<close>. After the style sheet the first has the sanitized
  fragment as the emoji postprocessor rewrites it and the second the fragment itself: when
  the fragment has no glyph, the block is all they differ by.
\<close>

theorem pdf_document_adds_print_block:
  assumes library: \<open>\<forall>s opts. twemoji_parse L s opts = twemoji_model table s opts\<close>
    and pdf: \<open>fst (getHtmlForWebview L st markdownContent True assetBase) = Inr pdfDocument\<close>
    and preview: \<open>fst (getHtmlForWebview L st markdownContent False assetBase) = Inr previewDocument\<close>
  shows \<open>\<exists>fragment.
      sanitized_fragment L (st @ [marked_use markedKatex, marked_setOptions (markedOptions L)]) markdownContent = Inr fragment \<and>
      pdfDocument =
        shell_before_print_block (vendor_of assetBase) @ print_media_block @ shell_theme @
        rewrite_glyphs table emoji_options 0 fragment @ shell_tail \<and>
      previewDocument =
        shell_before_print_block (vendor_of assetBase) @ shell_theme @ fragment @ shell_tail \<and>
      print_media_block =
        media_print_text
          [Rule [''h1'', ''h2'', ''h3''] [(''page-break-before'', ''auto'')],
           Rule [''pre'', ''. code-block'', ''figure'', ''table'', ''. mermaid-container'']
             [(''page-break-inside'', ''avoid'')],
           Rule [''hr''] [(''page-break-after'', ''auto'')]] \<and>
      length previewDocument < length pdfDocument \<and>
      (glyph_free table fragment \<longrightarrow>
         pdfDocument =
           shell_before_print_block (vendor_of assetBase) @ print_media_block @ shell_theme @
           fragment @ shell_tail)\<close>
proof -
  from run_document [OF pdf] run_document [OF preview] library obtain fragment where
    fragment: \<open>sanitized_fragment L (st @ [marked_use markedKatex, marked_setOptions (markedOptions L)]) markdownContent = Inr fragment\<close>
    and pdfDocument: \<open>pdfDocument =
      document True (vendor_of assetBase) (rewrite_glyphs table emoji_options 0 fragment)\<close>
    and previewDocument: \<open>previewDocument = document False (vendor_of assetBase) fragment\<close>
    by (auto simp add: twemoji_model_def)
  have \<open>length fragment \<le> length (rewrite_glyphs table emoji_options 0 fragment)\<close>
    using rewrite_length [of fragment table emoji_options 0] by simp
  then have \<open>length previewDocument < length pdfDocument\<close>
    using print_media_block_length
    by (simp add: pdfDocument previewDocument document_print_block del: length_greater_0_conv)
  moreover have \<open>print_media_block = media_print_text [Rule [''h1'', ''h2'', ''h3''] [(''page-break-before'', ''auto'')],
           Rule [''pre'', ''. code-block'', ''figure'', ''table'', ''. mermaid-container'']
             [(''page-break-inside'', ''avoid'')],
           Rule [''hr''] [(''page-break-after'', ''auto'')]]\<close>
    using print_media_block_rules by (simp only: print_media_rules_def)
  ultimately show ?thesis
    using fragment pdfDocument previewDocument
    by (auto simp add: document_print_block rewrite_glyph_free)
qed

theorem pdf_document_adds_print_block_witness:
  \<open>(\<forall>s opts. twemoji_parse modelled_libs s opts = twemoji_model sample_glyphs s opts) \<and>
   glyph_free sample_glyphs (''<p>Hello</p>'' @ nl) \<and>
   fst (getHtmlForWebview modelled_libs [] ''Hello'' True (Some ''file:///tmp/vendor/'')) =
     Inr (shell_before_print_block (Some ''file:///tmp/vendor'') @ print_media_block @ shell_theme @
          (''<p>Hello</p>'' @ nl) @ shell_tail) \<and>
   fst (getHtmlForWebview modelled_libs [] ''Hello'' False (Some ''file:///tmp/vendor/'')) =
     Inr (shell_before_print_block (Some ''file:///tmp/vendor'') @ shell_theme @
          (''<p>Hello</p>'' @ nl) @ shell_tail) \<and>
   length (shell_before_print_block (Some ''file:///tmp/vendor'') @ shell_theme @
          (''<p>Hello</p>'' @ nl) @ shell_tail) <
   length (shell_before_print_block (Some ''file:///tmp/vendor'') @ print_media_block @ shell_theme @
          (''<p>Hello</p>'' @ nl) @ shell_tail)\<close>
proof -
  have pdf: \<open>fst (getHtmlForWebview modelled_libs [] ''Hello'' True (Some ''file:///tmp/vendor/'')) =
     Inr (shell_before_print_block (Some ''file:///tmp/vendor'') @ print_media_block @ shell_theme @
          (''<p>Hello</p>'' @ nl) @ shell_tail)\<close>
    using modelled_hello_fragment [of \<open>[marked_use markedKatex, marked_setOptions (markedOptions modelled_libs)]\<close>] rewrite_glyph_free [OF modelled_hello_glyph_free]
    by (simp add: getHtmlForWebview_def body_fragment_def vendor_of_tmp_vendor modelled_twemoji
        twemoji_model_def document_print_block)
  have preview:
    \<open>fst (getHtmlForWebview modelled_libs [] ''Hello'' False (Some ''file:///tmp/vendor/'')) =
     Inr (shell_before_print_block (Some ''file:///tmp/vendor'') @ shell_theme @
          (''<p>Hello</p>'' @ nl) @ shell_tail)\<close>
    using modelled_hello_fragment [of \<open>[marked_use markedKatex, marked_setOptions (markedOptions modelled_libs)]\<close>]
    by (simp add: getHtmlForWebview_def body_fragment_def vendor_of_tmp_vendor document_print_block)
  from pdf_document_adds_print_block [OF modelled_twemoji pdf preview]
  have \<open>length (shell_before_print_block (Some ''file:///tmp/vendor'') @ shell_theme @
          (''<p>Hello</p>'' @ nl) @ shell_tail) <
   length (shell_before_print_block (Some ''file:///tmp/vendor'') @ print_media_block @ shell_theme @
          (''<p>Hello</p>'' @ nl) @ shell_tail)\<close>
    by blast
  with modelled_twemoji modelled_hello_glyph_free pdf preview show ?thesis
    by (intro conjI)
qed

text \<open>
  C7 as stated has rules in the block that keep headings from being broken across pages. The
  one rule of the block with \<^verbatim>\<open>avoid\<close> does not select a heading, and the one rule that
  selects \<^verbatim>\<open>h1\<close>, \<^verbatim>\<open>h2\<close> or \<^verbatim>\<open>h3\<close> declares \<^verbatim>\<open>page-break-before: auto\<close>.
\<close>

theorem headings_have_no_avoidance_rule_counterexample:
  \<open>print_media_block = media_print_text print_media_rules \<and>
   map selectors_of (filter avoids_break print_media_rules) =
     [[''pre'', ''. code-block'', ''figure'', ''table'', ''. mermaid-container'']] \<and>
   filter (selects ''h1'') print_media_rules =
     [Rule [''h1'', ''h2'', ''h3''] [(''page-break-before'', ''auto'')]] \<and>
   filter (selects ''h2'') print_media_rules =
     [Rule [''h1'', ''h2'', ''h3''] [(''page-break-before'', ''auto'')]] \<and>
   filter (selects ''h3'') print_media_rules =
     [Rule [''h1'', ''h2'', ''h3''] [(''page-break-before'', ''auto'')]]\<close>
  using print_media_block_rules by (simp add: print_media_rules_def)

subsection \<open>The sanitizer's allow-list\<close>

text \<open>
  What the modelled sanitizer leaves: the tags that are allowed, in their order, attributes
  that are allowed, and all of the text.
\<close>

lemma tag_names_sanitize:
  \<open>tag_names (sanitize_tokens tags attrs tokens) = filter (\<lambda>name. name \<in> set tags) (tag_names tokens)\<close>
  by (induction tokens rule: tag_names.induct) (simp_all add: sanitize_tokens_def)

lemma attr_names_sanitize:
  \<open>set (attr_names (sanitize_tokens tags attrs tokens)) \<subseteq> set attrs \<inter> set (attr_names tokens)\<close>
  by (induction tokens rule: tag_names.induct) (auto simp add: sanitize_tokens_def)

lemma text_of_sanitize: \<open>text_of (sanitize_tokens tags attrs tokens) = text_of tokens\<close>
  by (induction tokens rule: tag_names.induct) (simp_all add: sanitize_tokens_def)

text \<open>
  C9. With a sanitizer that does what the specification says of it, for any reading and
  writing of markup and any default profile: the sanitized fragment is the engine's output
  with the tags and attributes of the profile and of the allow-list kept and every other tag
  and attribute removed. The allow-list is the 24 tags and 30 attributes of the source: ten
  for math markup (\<^verbatim>\<open>math\<close>, \<^verbatim>\<open>semantics\<close>, \<^verbatim>\<open>mrow\<close>, \<^verbatim>\<open>mi\<close>, \<^verbatim>\<open>mo\<close>, \<^verbatim>\<open>mn\<close>, \<^verbatim>\<open>msup\<close>,
  \<^verbatim>\<open>sub\<close>, \<^verbatim>\<open>sup\<close>, \<^verbatim>\<open>annotation\<close>), fourteen for vector diagrams, and the attributes of
  vector diagrams.
\<close>

theorem tags_and_attributes_outside_allow_list_removed:
  assumes library: \<open>\<forall>html config. DOMPurify_sanitize L html config =
      sanitizer_model parse serialize profile_tags profile_attrs html config\<close>
    and parsed: \<open>marked_parse L (st @ [marked_use markedKatex, marked_setOptions (markedOptions L)]) markdownContent = Inr html\<close>
  shows \<open>\<exists>tags attrs tokens.
      tags =
        profile_tags @
          [''math'', ''semantics'', ''mrow'', ''mi'', ''mo'', ''mn'', ''msup'', ''sub'', ''sup'',
           ''annotation'', ''svg'', ''path'', ''rect'', ''g'', ''text'', ''tspan'', ''defs'',
           ''marker'', ''line'', ''polyline'', ''polygon'', ''circle'', ''ellipse'',
           ''foreignObject''] \<and>
      attrs =
        profile_attrs @
          [''xmlns'', ''viewBox'', ''fill'', ''stroke'', ''stroke-width'', ''d'', ''x'', ''y'',
           ''width'', ''height'', ''rx'', ''ry'', ''id'', ''class'', ''transform'', ''cx'', ''cy'',
           ''r'', ''x1'', ''y1'', ''x2'', ''y2'', ''points'', ''font-family'', ''font-size'',
           ''text-anchor'', ''dominant-baseline'', ''style'', ''marker-start'', ''marker-end''] \<and>
      tokens = sanitize_tokens tags attrs (parse html) \<and>
      sanitized_fragment L (st @ [marked_use markedKatex, marked_setOptions (markedOptions L)]) markdownContent = Inr (serialize tokens) \<and>
      fst (getHtmlForWebview L st markdownContent False assetBase) =
        Inr (document False (vendor_of assetBase) (serialize tokens)) \<and>
      tag_names tokens = filter (\<lambda>name. name \<in> set tags) (tag_names (parse html)) \<and>
      set (attr_names tokens) \<subseteq> set attrs \<inter> set (attr_names (parse html)) \<and>
      text_of tokens = text_of (parse html)\<close>
proof -
  define tags where \<open>tags = profile_tags @ ADD_TAGS sanitize_options\<close>
  define attrs where \<open>attrs = profile_attrs @ ADD_ATTR sanitize_options\<close>
  define tokens where \<open>tokens = sanitize_tokens tags attrs (parse html)\<close>
  have fragment: \<open>sanitized_fragment L (st @ [marked_use markedKatex, marked_setOptions (markedOptions L)]) markdownContent = Inr (serialize tokens)\<close>
    using library parsed
    by (simp add: sanitized_fragment_def sanitizer_model_def tokens_def tags_def attrs_def
        allowed_tags_def allowed_attrs_def)
      (simp add: sanitize_options_def)
  then have \<open>fst (getHtmlForWebview L st markdownContent False assetBase) =
        Inr (document False (vendor_of assetBase) (serialize tokens))\<close>
    by (simp add: getHtmlForWebview_def Let_def body_fragment_def)
  moreover have \<open>tag_names tokens = filter (\<lambda>name. name \<in> set tags) (tag_names (parse html))\<close>
    by (simp add: tokens_def tag_names_sanitize)
  moreover have \<open>set (attr_names tokens) \<subseteq> set attrs \<inter> set (attr_names (parse html))\<close>
    unfolding tokens_def by (rule attr_names_sanitize)
  moreover have \<open>text_of tokens = text_of (parse html)\<close>
    by (simp add: tokens_def text_of_sanitize)
  moreover have \<open>tags =
        profile_tags @
          [''math'', ''semantics'', ''mrow'', ''mi'', ''mo'', ''mn'', ''msup'', ''sub'', ''sup'',
           ''annotation'', ''svg'', ''path'', ''rect'', ''g'', ''text'', ''tspan'', ''defs'',
           ''marker'', ''line'', ''polyline'', ''polygon'', ''circle'', ''ellipse'',
           ''foreignObject'']\<close>
    by (simp add: tags_def sanitize_options_def)
  moreover have \<open>attrs =
        profile_attrs @
          [''xmlns'', ''viewBox'', ''fill'', ''stroke'', ''stroke-width'', ''d'', ''x'', ''y'',
           ''width'', ''height'', ''rx'', ''ry'', ''id'', ''class'', ''transform'', ''cx'', ''cy'',
           ''r'', ''x1'', ''y1'', ''x2'', ''y2'', ''points'', ''font-family'', ''font-size'',
           ''text-anchor'', ''dominant-baseline'', ''style'', ''marker-start'', ''marker-end'']\<close>
    by (simp add: attrs_def sanitize_options_def)
  ultimately show ?thesis
    using fragment tokens_def by blast
qed

lemma modelled_unsafe_parsed:
  \<open>marked_parse modelled_libs st unsafe_paragraph = Inr (''<p>'' @ unsafe_paragraph @ ''</p>'' @ nl)\<close>
proof -
  have \<open>single_fenced_block unsafe_paragraph = None\<close>
    by (simp add: single_fenced_block_def unsafe_paragraph_def fence_def)
  from modelled_parse_paragraph [OF this] show ?thesis .
qed

lemma sample_unsafe_tokens:
  \<open>sample_parse_html (''<p>'' @ unsafe_paragraph @ ''</p>'' @ nl) =
     [Open ''p'' [],
      Open ''span'' [(''onclick'', ''x()''), (''class'', ''a b'')], Text ''Hi'', Close ''span'',
      Text '' '',
      Open ''object'' [(''data'', ''y'')], Text ''there'', Close ''object'',
      Open ''svg'' [(''viewBox'', ''0 0 1 1''), (''onload'', ''z()'')], Close ''svg'',
      Close ''p'', Text nl]\<close>
  by (simp add: sample_parse_html_def unsafe_paragraph_def lex_tag_def nl_def)

lemma sample_unsafe_sanitized:
  \<open>sanitize_tokens
     (sample_profile_tags @
        [''math'', ''semantics'', ''mrow'', ''mi'', ''mo'', ''mn'', ''msup'', ''sub'', ''sup'',
           ''annotation'', ''svg'', ''path'', ''rect'', ''g'', ''text'', ''tspan'', ''defs'',
           ''marker'', ''line'', ''polyline'', ''polygon'', ''circle'', ''ellipse'',
           ''foreignObject''])
     (sample_profile_attrs @
        [''xmlns'', ''viewBox'', ''fill'', ''stroke'', ''stroke-width'', ''d'', ''x'', ''y'',
           ''width'', ''height'', ''rx'', ''ry'', ''id'', ''class'', ''transform'', ''cx'', ''cy'',
           ''r'', ''x1'', ''y1'', ''x2'', ''y2'', ''points'', ''font-family'', ''font-size'',
           ''text-anchor'', ''dominant-baseline'', ''style'', ''marker-start'', ''marker-end''])
     [Open ''p'' [],
      Open ''span'' [(''onclick'', ''x()''), (''class'', ''a b'')], Text ''Hi'', Close ''span'',
      Text '' '',
      Open ''object'' [(''data'', ''y'')], Text ''there'', Close ''object'',
      Open ''svg'' [(''viewBox'', ''0 0 1 1''), (''onload'', ''z()'')], Close ''svg'',
      Close ''p'', Text nl] =
   [Open ''p'' [],
    Open ''span'' [(''class'', ''a b'')], Text ''Hi'', Close ''span'',
    Text '' '', Text ''there'',
    Open ''svg'' [(''viewBox'', ''0 0 1 1'')], Close ''svg'',
    Close ''p'', Text nl]\<close>
  by (simp add: sanitize_tokens_def sample_profile_tags_def sample_profile_attrs_def)

lemma sample_unsafe_written:
  \<open>sample_serialize_html
     [Open ''p'' [],
      Open ''span'' [(''class'', ''a b'')], Text ''Hi'', Close ''span'',
      Text '' '', Text ''there'',
      Open ''svg'' [(''viewBox'', ''0 0 1 1'')], Close ''svg'',
      Close ''p'', Text nl] =
   ''<p><span class="a b">Hi</span> there<svg viewBox="0 0 1 1"></svg></p>'' @ nl\<close>
  by (simp add: sample_serialize_html_def nl_def)

theorem tags_and_attributes_outside_allow_list_removed_witness:
  \<open>(\<forall>html config. DOMPurify_sanitize modelled_libs html config =
      sanitizer_model sample_parse_html sample_serialize_html sample_profile_tags
        sample_profile_attrs html config) \<and>
   marked_parse modelled_libs ([] @ [marked_use markedKatex, marked_setOptions (markedOptions modelled_libs)]) unsafe_paragraph =
     Inr (''<p>'' @ unsafe_paragraph @ ''</p>'' @ nl) \<and>
   sanitized_fragment modelled_libs ([] @ [marked_use markedKatex, marked_setOptions (markedOptions modelled_libs)]) unsafe_paragraph =
     Inr (''<p><span class="a b">Hi</span> there<svg viewBox="0 0 1 1"></svg></p>'' @ nl) \<and>
   fst (getHtmlForWebview modelled_libs [] unsafe_paragraph False None) =
     Inr (document False None (''<p><span class="a b">Hi</span> there<svg viewBox="0 0 1 1"></svg></p>'' @ nl)) \<and>
   tag_names (sample_parse_html (''<p><span class="a b">Hi</span> there<svg viewBox="0 0 1 1"></svg></p>'' @ nl)) =
     [''p'', ''span'', ''span'', ''svg'', ''svg'', ''p''] \<and>
   attr_names (sample_parse_html (''<p><span class="a b">Hi</span> there<svg viewBox="0 0 1 1"></svg></p>'' @ nl)) = [''class'', ''viewBox'']\<close>
proof -
  note parsed = modelled_unsafe_parsed [of \<open>[] @ [marked_use markedKatex, marked_setOptions (markedOptions modelled_libs)]\<close>]
  from tags_and_attributes_outside_allow_list_removed [OF modelled_sanitizer parsed, of None]
  obtain tokens where
    tokens: \<open>tokens =
      sanitize_tokens
        (sample_profile_tags @
           [''math'', ''semantics'', ''mrow'', ''mi'', ''mo'', ''mn'', ''msup'', ''sub'', ''sup'',
           ''annotation'', ''svg'', ''path'', ''rect'', ''g'', ''text'', ''tspan'', ''defs'',
           ''marker'', ''line'', ''polyline'', ''polygon'', ''circle'', ''ellipse'',
           ''foreignObject''])
        (sample_profile_attrs @
           [''xmlns'', ''viewBox'', ''fill'', ''stroke'', ''stroke-width'', ''d'', ''x'', ''y'',
           ''width'', ''height'', ''rx'', ''ry'', ''id'', ''class'', ''transform'', ''cx'', ''cy'',
           ''r'', ''x1'', ''y1'', ''x2'', ''y2'', ''points'', ''font-family'', ''font-size'',
           ''text-anchor'', ''dominant-baseline'', ''style'', ''marker-start'', ''marker-end''])
        (sample_parse_html (''<p>'' @ unsafe_paragraph @ ''</p>'' @ nl))\<close>
    and fragment: \<open>sanitized_fragment modelled_libs ([] @ [marked_use markedKatex, marked_setOptions (markedOptions modelled_libs)]) unsafe_paragraph =
      Inr (sample_serialize_html tokens)\<close>
    and run: \<open>fst (getHtmlForWebview modelled_libs [] unsafe_paragraph False None) =
      Inr (document False (vendor_of None) (sample_serialize_html tokens))\<close>
    by blast
  have written: \<open>sample_serialize_html tokens = ''<p><span class="a b">Hi</span> there<svg viewBox="0 0 1 1"></svg></p>'' @ nl\<close>
    by (simp only: tokens sample_unsafe_tokens sample_unsafe_sanitized sample_unsafe_written)
  have left: \<open>tag_names (sample_parse_html (''<p><span class="a b">Hi</span> there<svg viewBox="0 0 1 1"></svg></p>'' @ nl)) =
     [''p'', ''span'', ''span'', ''svg'', ''svg'', ''p'']\<close>
    \<open>attr_names (sample_parse_html (''<p><span class="a b">Hi</span> there<svg viewBox="0 0 1 1"></svg></p>'' @ nl)) = [''class'', ''viewBox'']\<close>
    by (simp_all add: sample_parse_html_def lex_tag_def nl_def)
  from fragment run have
    \<open>sanitized_fragment modelled_libs ([] @ [marked_use markedKatex, marked_setOptions (markedOptions modelled_libs)]) unsafe_paragraph = Inr (''<p><span class="a b">Hi</span> there<svg viewBox="0 0 1 1"></svg></p>'' @ nl)\<close>
    \<open>fst (getHtmlForWebview modelled_libs [] unsafe_paragraph False None) =
     Inr (document False None (''<p><span class="a b">Hi</span> there<svg viewBox="0 0 1 1"></svg></p>'' @ nl))\<close>
    by (simp_all only: written vendor_of_None)
  with modelled_sanitizer parsed left show ?thesis
    by (intro conjI)
qed

subsection \<open>The completion flag\<close>

text \<open>The script of the template is the text of \<open>bootstrap_script\<close>.\<close>

lemma mermaid_bootstrap_text: \<open>mermaid_bootstrap = module_text bootstrap_script\<close>
  by (simp add: mermaid_bootstrap_def module_text_def bootstrap_script_def spaces_def nl_def
      numeral_eq_Suc)

text \<open>What one document load does with the script, on any page.\<close>

lemma bootstrap_effects:
  \<open>document_load env bootstrap_script =
     (if module_loads env ''https://cdn.jsdelivr.net/npm/mermaid@10/dist/mermaid.esm.min.mjs''
      then called ''mermaid.initialize'' #
        (case call_outcome env ''mermaid.initialize'' of
           Returns \<Rightarrow>
             called ''window.addEventListener'' #
             (case call_outcome env ''window.addEventListener'' of
                Returns \<Rightarrow>
                  called ''mermaid.run'' #
                  (case call_outcome env ''mermaid.run'' of
                     Returns \<Rightarrow> [assigned ''mermaidReady'' JsTrue]
                   | Throws error \<Rightarrow>
                       called ''console.error'' #
                       (case call_outcome env ''console.error'' of
                          Returns \<Rightarrow> [assigned ''mermaidReady'' JsTrue]
                        | _ \<Rightarrow> [])
                   | Never \<Rightarrow> [])
              | _ \<Rightarrow> [])
         | _ \<Rightarrow> [])
      else [])\<close>
proof (cases \<open>call_outcome env ''mermaid.initialize''\<close>)
  case Returns
  note initialized = this
  show ?thesis
  proof (cases \<open>call_outcome env ''window.addEventListener''\<close>)
    case Returns
    note listening = this
    show ?thesis
    proof (cases \<open>call_outcome env ''mermaid.run''\<close>)
      case Returns
      with initialized listening show ?thesis
        by (simp add: document_load_def evaluate_module_def bootstrap_script_def fire_def)
    next
      case (Throws error)
      note failed = this
      show ?thesis
        by (cases \<open>call_outcome env ''console.error''\<close>)
           (use initialized listening failed in
             \<open>simp_all add: document_load_def evaluate_module_def bootstrap_script_def fire_def\<close>)
    next
      case Never
      with initialized listening show ?thesis
        by (simp add: document_load_def evaluate_module_def bootstrap_script_def fire_def)
    qed
  qed (use initialized in
        \<open>simp_all add: document_load_def evaluate_module_def bootstrap_script_def fire_def\<close>)
qed (simp_all add: document_load_def evaluate_module_def bootstrap_script_def fire_def)

lemma bootstrap_flag:
  \<open>window_value ''mermaidReady'' None (document_load env bootstrap_script) =
     (if script_completes env then Some JsTrue else None)\<close>
  \<open>length (filter (assigns ''mermaidReady'') (document_load env bootstrap_script)) =
     (if script_completes env then 1 else 0)\<close>
  by (simp_all add: bootstrap_effects script_completes_def split: outcome.splits)

text \<open>
  C8, as the code has it. Every document that \<^verbatim>\<open>getHtmlForWebview\<close> returns contains the
  bootstrap script. One document load with that script assigns \<^verbatim>\<open>true\<close> to
  \<^verbatim>\<open>window.mermaidReady\<close> exactly once when the script runs to its end: the diagram runtime
  has been loaded, \<^verbatim>\<open>mermaid.initialize\<close> and \<^verbatim>\<open>window.addEventListener\<close> return, and the
  promise of \<^verbatim>\<open>mermaid.run\<close> is fulfilled (no diagram, or all rendered) or rejected (a diagram
  failed) with \<^verbatim>\<open>console.error\<close> returning. On every other page the load makes no such
  assignment and the flag stays undefined.
\<close>

theorem completion_flag_set_when_script_completes:
  assumes run: \<open>fst (getHtmlForWebview L st markdownContent isForPdf assetBase) = Inr doc\<close>
  shows \<open>(\<exists>before after. doc = before @ module_text bootstrap_script @ after) \<and>
         window_value ''mermaidReady'' None (document_load env bootstrap_script) =
           (if script_completes env then Some JsTrue else None) \<and>
         length (filter (assigns ''mermaidReady'') (document_load env bootstrap_script)) =
           (if script_completes env then 1 else 0)\<close>
proof -
  from run_document [OF run] obtain body where
    \<open>doc = document isForPdf (vendor_of assetBase) body\<close>
    by (cases isForPdf) auto
  then have \<open>doc =
      (shell_head @ highlight_css_url (vendor_of assetBase) @ shell_second_link @
       katex_css_url (vendor_of assetBase) @ shell_after_links) @
      module_text bootstrap_script @
      (shell_highlight_script @ highlight_js_url (vendor_of assetBase) @ shell_scripts @
       (if isForPdf then print_media_block else []) @ shell_theme @ body @ shell_tail)\<close>
    by (simp add: document_def mermaid_bootstrap_text)
  then have \<open>\<exists>before after. doc = before @ module_text bootstrap_script @ after\<close>
    by blast
  then show ?thesis
    by (simp add: bootstrap_flag)
qed

lemma sample_page_completes:
  \<open>script_completes (sample_page_env True [])\<close>
  \<open>script_completes (sample_page_env True [''graph TD; A-->B'', ''graph LR; C-->D''])\<close>
  \<open>script_completes (sample_page_env True [''graph TD; A-->B'', ''not a diagram''])\<close>
  \<open>\<not> script_completes (sample_page_env False [])\<close>
  by (simp_all add: script_completes_def sample_page_env_def)

theorem completion_flag_set_when_script_completes_witness:
  \<open>fst (getHtmlForWebview modelled_libs [] ''Hello'' True None) =
     Inr (document True None (''<p>Hello</p>'' @ nl)) \<and>
   (\<exists>before after.
      document True None (''<p>Hello</p>'' @ nl) = before @ module_text bootstrap_script @ after) \<and>
   script_completes (sample_page_env True []) \<and>
   window_value ''mermaidReady'' None (document_load (sample_page_env True []) bootstrap_script) =
     Some JsTrue \<and>
   length (filter (assigns ''mermaidReady'')
             (document_load (sample_page_env True []) bootstrap_script)) = 1 \<and>
   document_load (sample_page_env True [''graph TD; A-->B'', ''graph LR; C-->D'']) bootstrap_script =
     [called ''mermaid.initialize'', called ''window.addEventListener'', called ''mermaid.run'',
      assigned ''mermaidReady'' JsTrue] \<and>
   document_load (sample_page_env True [''graph TD; A-->B'', ''not a diagram'']) bootstrap_script =
     [called ''mermaid.initialize'', called ''window.addEventListener'', called ''mermaid.run'',
      called ''console.error'', assigned ''mermaidReady'' JsTrue]\<close>
proof -
  have run: \<open>fst (getHtmlForWebview modelled_libs [] ''Hello'' True None) =
     Inr (document True None (''<p>Hello</p>'' @ nl))\<close>
    using modelled_hello_fragment [of \<open>[marked_use markedKatex, marked_setOptions (markedOptions modelled_libs)]\<close>] rewrite_glyph_free [OF modelled_hello_glyph_free]
    by (simp add: getHtmlForWebview_def body_fragment_def vendor_of_None modelled_twemoji
        twemoji_model_def)
  note flag = completion_flag_set_when_script_completes [OF run, of \<open>sample_page_env True []\<close>]
  have contained: \<open>\<exists>before after.
      document True None (''<p>Hello</p>'' @ nl) = before @ module_text bootstrap_script @ after\<close>
    using flag by blast
  have once: \<open>window_value ''mermaidReady'' None
       (document_load (sample_page_env True []) bootstrap_script) = Some JsTrue\<close>
    \<open>length (filter (assigns ''mermaidReady'')
             (document_load (sample_page_env True []) bootstrap_script)) = 1\<close>
    using flag sample_page_completes(1) by simp_all
  have traces:
    \<open>document_load (sample_page_env True [''graph TD; A-->B'', ''graph LR; C-->D'']) bootstrap_script =
     [called ''mermaid.initialize'', called ''window.addEventListener'', called ''mermaid.run'',
      assigned ''mermaidReady'' JsTrue]\<close>
    \<open>document_load (sample_page_env True [''graph TD; A-->B'', ''not a diagram'']) bootstrap_script =
     [called ''mermaid.initialize'', called ''window.addEventListener'', called ''mermaid.run'',
      called ''console.error'', assigned ''mermaidReady'' JsTrue]\<close>
    by (simp_all add: bootstrap_effects sample_page_env_def)
  from run contained sample_page_completes(1) once traces show ?thesis
    by (intro conjI)
qed

text \<open>
  C8 as stated has the flag set in all cases. On a page without a diagram that cannot load
  the diagram runtime from its remote address, the module is not evaluated, no listener is
  registered, and the load assigns nothing.
\<close>

theorem flag_never_set_without_runtime_counterexample:
  \<open>mermaid_bootstrap = module_text bootstrap_script \<and>
   document_load (sample_page_env False []) bootstrap_script = [] \<and>
   window_value ''mermaidReady'' None (document_load (sample_page_env False []) bootstrap_script) =
     None \<and>
   length (filter (assigns ''mermaidReady'')
             (document_load (sample_page_env False []) bootstrap_script)) = 0\<close>
  using mermaid_bootstrap_text by (simp add: bootstrap_effects sample_page_env_def)

end
